theory Spec2Isabelle
  imports Complex_Main
begin

section \<open>Python values and exceptions\<close>

text \<open>
  The repository is Python on top of PyTorch and fastai.  Python integers are modelled
  as \<^typ>\<open>int\<close>, Python floats as exact reals (rounding is not modelled), tuples and
  lists as HOL lists, and \<open>None\<close>-able arguments as \<^typ>\<open>'a option\<close>.  Every exception
  that the modelled code can raise is a value of \<open>error\<close>; a computation that may raise
  returns \<open>error + 'a\<close> with \<open>Inl\<close> for the exception.  \<open>NonFinite\<close> is not an
  exception: it marks a float result that is infinite or not a number, which an exact
  real cannot hold, so that no statement is made about it.
\<close>

datatype error =
    NameError string
  | AssertionError string
  | ZeroDivisionError
  | IndexError
  | TypeError
  | AttributeError string
  | ValueError string
  | RuntimeError string
  | NonFinite

type_synonym 'a res = "error + 'a"

definition rbind :: "'a res \<Rightarrow> ('a \<Rightarrow> 'b res) \<Rightarrow> 'b res" where
  "rbind m f = (case m of Inl e \<Rightarrow> Inl e | Inr x \<Rightarrow> f x)"

text \<open>\<open>int(x)\<close> on a float truncates towards zero.\<close>

definition py_int :: "real \<Rightarrow> int" where
  "py_int x = (if 0 \<le> x then \<lfloor>x\<rfloor> else - \<lfloor>- x\<rfloor>)"

section \<open>ConvLayerDynamicPadding.calculate\_padding\<close>

text \<open>
  \<^verbatim>\<open>if ks % 2 == 0: return ks // 2, (ks-1) //2\<close>
  \<^verbatim>\<open>else: return ks //2, ks //2\<close>
  Python's \<open>//\<close> and \<open>%\<close> on integers are floor division and its remainder, which is
  what \<open>div\<close> and \<open>mod\<close> are on \<^typ>\<open>int\<close>.
\<close>

definition calculate_padding :: "int \<Rightarrow> int \<times> int" where
  "calculate_padding ks =
     (if ks mod 2 = 0 then (ks div 2, (ks - 1) div 2) else (ks div 2, ks div 2))"

section \<open>EfficientNet.get\_n\_channels\<close>

text \<open>
  \<^verbatim>\<open>if not width_coefficient: return filters\<close> names a variable that does not exist,
  so that branch, taken when \<open>width_coefficient\<close> is \<open>None\<close> or zero, raises \<open>NameError\<close>.  \<^verbatim>\<open>min_depth or depth_divisor\<close> takes
  \<open>depth_divisor\<close> when \<open>min_depth\<close> is \<open>None\<close> or zero.  The floor division by
  \<open>depth_divisor\<close> raises \<open>ZeroDivisionError\<close> at zero.
\<close>

definition get_n_channels :: "int \<Rightarrow> real option \<Rightarrow> int \<Rightarrow> int option \<Rightarrow> int res" where
  "get_n_channels n_channels width_coefficient depth_divisor min_depth =
     (case width_coefficient of
        None \<Rightarrow> Inl (NameError ''filters'')
      | Some w \<Rightarrow>
          if w = 0 then Inl (NameError ''filters'')
          else
            let n_channels' = of_int n_channels * w;
                min_depth' = (case min_depth of
                                None \<Rightarrow> depth_divisor
                              | Some m \<Rightarrow> if m = 0 then depth_divisor else m)
            in if depth_divisor = 0 then Inl ZeroDivisionError
               else
                 let new_channels =
                       max min_depth'
                         (py_int (n_channels' + of_int depth_divisor / 2)
                            div depth_divisor * depth_divisor);
                     new_channels' =
                       (if of_int new_channels < (9 / 10) * n_channels'
                        then new_channels + depth_divisor else new_channels)
                 in Inr new_channels')"

section \<open>DropConnect: construction\<close>

text \<open>
  \<^verbatim>\<open>assert 0 <= p <= 1, 'p must be in range of [0,1]'\<close>, then
  \<^verbatim>\<open>self.keep_prob = 1 - p\<close>.
\<close>

record DropConnect =
  keep_prob :: real

definition DropConnect_init :: "real \<Rightarrow> DropConnect res" where
  "DropConnect_init p =
     (if 0 \<le> p \<and> p \<le> 1 then Inr \<lparr>keep_prob = 1 - p\<rparr>
      else Inl (AssertionError ''p must be in range of [0,1]''))"

section \<open>The framework interface\<close>

text \<open>
  Tensors, their arithmetic and the layers of PyTorch and fastai are external to the
  repository.  The repository's code is written against them; the model takes them as
  two records of operations over an arbitrary tensor type \<open>'t\<close>, so that every
  statement proved for all such records holds whatever the framework computes.
  Each operation may raise.

  \<open>self.training\<close>, which \<open>train()\<close> and \<open>eval()\<close> set on a whole module tree at
  once, is passed to the forward functions as a Boolean.
\<close>

record 't tensor_ops =
  shape :: "'t \<Rightarrow> int list"
  rand :: "int list \<Rightarrow> 't res"
  add_scalar :: "real \<Rightarrow> 't \<Rightarrow> 't res"
  div_scalar :: "'t \<Rightarrow> real \<Rightarrow> 't res"
  floor_inplace :: "'t \<Rightarrow> 't res"
  mul :: "'t \<Rightarrow> 't \<Rightarrow> 't res"
  add :: "'t \<Rightarrow> 't \<Rightarrow> 't res"
  sigmoid :: "'t \<Rightarrow> 't res"

datatype NormType = Batch | BatchZero | Weight | Spectral | Instance | InstanceZero

datatype activation = ReLU | SiLU

datatype ks_arg = KInt int | KTuple "int list"

datatype interp_mode = Nearest | Trilinear

text \<open>
  The arguments of fastai's \<open>ConvLayer\<close> that the repository sets, with the keyword
  arguments \<open>groups\<close> and \<open>dilation\<close> that it forwards to the convolution.  A
  constructed \<open>ConvLayer\<close> is the same record with its padding resolved.
\<close>

record ConvLayer =
  cl_ni :: int
  cl_nf :: int
  cl_ks :: ks_arg
  cl_stride :: int
  cl_padding :: "int option"
  cl_bias :: "bool option"
  cl_ndim :: int
  cl_norm_type :: "NormType option"
  cl_bn_1st :: bool
  cl_act_cls :: "activation option"
  cl_transpose :: bool
  cl_groups :: int
  cl_dilation :: int

record 't nn_ops =
  ConstantPad3d_forward :: "int list \<Rightarrow> real \<Rightarrow> 't \<Rightarrow> 't res"
  ConvLayer_forward :: "bool \<Rightarrow> ConvLayer \<Rightarrow> 't \<Rightarrow> 't res"
  Conv3d_forward :: "int \<Rightarrow> int \<Rightarrow> int \<Rightarrow> int \<Rightarrow> 't \<Rightarrow> 't res"
  adaptive_avg_pool3d :: "'t \<Rightarrow> int \<Rightarrow> 't res"
  Flatten_forward :: "'t \<Rightarrow> 't res"
  Dropout_forward :: "bool \<Rightarrow> real \<Rightarrow> 't \<Rightarrow> 't res"
  Linear_forward :: "int \<Rightarrow> int \<Rightarrow> 't \<Rightarrow> 't res"
  interpolate :: "'t \<Rightarrow> int list \<Rightarrow> interp_mode \<Rightarrow> 't res"
  cat :: "'t list \<Rightarrow> int \<Rightarrow> 't res"

text \<open>
  \<open>xs[i]\<close> on a list or tuple: position \<open>i\<close> when \<open>0 \<le> i < len(xs)\<close>, position
  \<open>len(xs) + i\<close> when \<open>-len(xs) \<le> i < 0\<close>, and \<open>IndexError\<close> otherwise.
\<close>

definition py_index :: "'a list \<Rightarrow> int \<Rightarrow> 'a res" where
  "py_index xs i =
     (if 0 \<le> i \<and> i < int (length xs) then Inr (xs ! nat i)
      else if i < 0 \<and> - int (length xs) \<le> i then Inr (xs ! nat (int (length xs) + i))
      else Inl IndexError)"

text \<open>\<open>x.shape[-3:]\<close>: the last three entries, or all of them when there are fewer.\<close>

definition last3 :: "int list \<Rightarrow> int list" where
  "last3 s = drop (length s - 3) s"

text \<open>The constructor checks of \<open>nn.Dropout\<close> and of the convolution classes.\<close>

definition Dropout_init :: "real \<Rightarrow> real res" where
  "Dropout_init p =
     (if p < 0 \<or> 1 < p then Inl (ValueError ''dropout probability has to be between 0 and 1'')
      else Inr p)"

definition ConvLayer_init :: "ConvLayer \<Rightarrow> ConvLayer res" where
  "ConvLayer_init a =
     rbind (case cl_padding a of
              Some p \<Rightarrow> Inr p
            | None \<Rightarrow>
                (case cl_ks a of
                   KInt k \<Rightarrow> Inr (if cl_transpose a then 0 else (k - 1) div 2)
                 | KTuple t \<Rightarrow> if cl_transpose a then Inr 0 else Inl TypeError))
       (\<lambda>p. if cl_groups a \<le> 0 then Inl (ValueError ''groups must be a positive integer'')
            else if cl_ni a mod cl_groups a \<noteq> 0
              then Inl (ValueError ''in_channels must be divisible by groups'')
            else if cl_nf a mod cl_groups a \<noteq> 0
              then Inl (ValueError ''out_channels must be divisible by groups'')
            else if cl_ni a < 0 \<or> cl_nf a < 0
              then Inl (RuntimeError ''negative dimension'')
            else Inr (a\<lparr>cl_padding := Some p\<rparr>))"

text \<open>The defaults of \<open>ConvLayer\<close> (fastai) for the arguments above.\<close>

definition ConvLayer_defaults :: ConvLayer where
  "ConvLayer_defaults =
     \<lparr>cl_ni = 0, cl_nf = 0, cl_ks = KInt 3, cl_stride = 1, cl_padding = None,
      cl_bias = None, cl_ndim = 2, cl_norm_type = Some Batch, cl_bn_1st = True,
      cl_act_cls = Some ReLU, cl_transpose = False, cl_groups = 1, cl_dilation = 1\<rparr>"

section \<open>ConvLayerDynamicPadding\<close>

text \<open>
  \<^verbatim>\<open>if isinstance(ks, int): ks = (ks, )*ndim\<close>
  \<^verbatim>\<open>padding = [pad for _ks in ks for pad in self.calculate_padding(_ks)]\<close>
  \<^verbatim>\<open>conv_layer = ConvLayer(ni, nf, ks, stride, 0, bias, ndim, ...)\<close>
  \<^verbatim>\<open>super().__init__(nn.ConstantPad3d(padding[::-1], 0.), *[l for l in conv_layer])\<close>
  The module is the padding layer followed by the layers of the \<open>ConvLayer\<close>.
\<close>

record ConvLayerDynamicPadding =
  dp_padding :: "int list"
  dp_value :: real
  dp_conv :: ConvLayer

text \<open>The defaults of \<open>ConvLayerDynamicPadding.__init__\<close>: \<open>ks=3\<close>, \<open>stride=1\<close>, \<open>ndim=3\<close>.\<close>

definition ConvLayerDynamicPadding_defaults :: ConvLayer where
  "ConvLayerDynamicPadding_defaults = ConvLayer_defaults\<lparr>cl_ndim := 3\<rparr>"

definition ks_tuple :: "ks_arg \<Rightarrow> int \<Rightarrow> int list" where
  "ks_tuple ks ndim = (case ks of KInt k \<Rightarrow> replicate (nat ndim) k | KTuple t \<Rightarrow> t)"

definition padding_list :: "int list \<Rightarrow> int list" where
  "padding_list ks = concat (map (\<lambda>k. [fst (calculate_padding k), snd (calculate_padding k)]) ks)"

definition ConvLayerDynamicPadding_init :: "ConvLayer \<Rightarrow> ConvLayerDynamicPadding res" where
  "ConvLayerDynamicPadding_init a =
     (let ks = ks_tuple (cl_ks a) (cl_ndim a);
          padding = padding_list ks
      in rbind (ConvLayer_init (a\<lparr>cl_ks := KTuple ks, cl_padding := Some 0\<rparr>))
           (\<lambda>conv_layer.
              Inr \<lparr>dp_padding = rev padding, dp_value = 0, dp_conv = conv_layer\<rparr>))"

definition ConvLayerDynamicPadding_forward ::
  "'t nn_ops \<Rightarrow> bool \<Rightarrow> ConvLayerDynamicPadding \<Rightarrow> 't \<Rightarrow> 't res" where
  "ConvLayerDynamicPadding_forward N training m x =
     rbind (ConstantPad3d_forward N (dp_padding m) (dp_value m) x)
       (ConvLayer_forward N training (dp_conv m))"

section \<open>DropConnect: forward\<close>

text \<open>
  \<^verbatim>\<open>if not self.training: return x\<close>
  \<^verbatim>\<open>batch_size = x.size(0)\<close>
  \<^verbatim>\<open>random_tensor = self.keep_prob + torch.rand([batch_size, 1, 1, 1, 1], ...)\<close>
  \<^verbatim>\<open>return x / self.keep_prob * random_tensor.floor_()\<close>
\<close>

definition random_tensor :: "'t tensor_ops \<Rightarrow> DropConnect \<Rightarrow> 't \<Rightarrow> 't res" where
  "random_tensor T m x =
     rbind (py_index (shape T x) 0)
       (\<lambda>batch_size.
          rbind (rand T [batch_size, 1, 1, 1, 1]) (add_scalar T (keep_prob m)))"

definition DropConnect_forward :: "'t tensor_ops \<Rightarrow> bool \<Rightarrow> DropConnect \<Rightarrow> 't \<Rightarrow> 't res" where
  "DropConnect_forward T training m x =
     (if \<not> training then Inr x
      else rbind (random_tensor T m x)
             (\<lambda>r. rbind (div_scalar T x (keep_prob m))
                (\<lambda>q. rbind (floor_inplace T r) (mul T q))))"

section \<open>MBConvBlock\<close>

record MBConvBlock =
  mb_n_inp :: int
  mb_n_out :: int
  mb_kernel_size :: ks_arg
  mb_stride :: int
  mb_se_ratio :: "real option"
  mb_id_skip :: bool
  mb_expand_ratio :: int
  mb_drop_connect_rate :: real
  mb_act_cls :: "activation option"
  mb_norm_type :: "NormType option"
  mb_expand_conv :: "ConvLayerDynamicPadding option"
  mb_depthwise_conv :: ConvLayerDynamicPadding
  mb_has_se :: bool
  mb_squeeze_expand :: "ConvLayerDynamicPadding list option"
  mb_project_conv :: ConvLayerDynamicPadding
  mb_drop_conncet :: DropConnect

text \<open>
  \<open>__init__\<close>: the attributes \<open>expand_conv\<close> and \<open>squeeze_expand\<close> exist only when
  the expansion ratio differs from one, respectively when \<open>has_se\<close> holds; they are
  optional fields.  \<open>project_conv\<close> is built without \<open>norm_type\<close>, so with the default.
  \<^verbatim>\<open>self.has_se = (se_ratio is not None) and (0 < se_ratio <= 1)\<close>
  \<^verbatim>\<open>num_squeezed_channels = max(1, int(n_inp * se_ratio))\<close>
\<close>

definition has_se_of :: "real option \<Rightarrow> bool" where
  "has_se_of se_ratio = (case se_ratio of None \<Rightarrow> False | Some r \<Rightarrow> 0 < r \<and> r \<le> 1)"

definition num_squeezed_channels :: "int \<Rightarrow> real \<Rightarrow> int" where
  "num_squeezed_channels n_inp se_ratio = max 1 (py_int (of_int n_inp * se_ratio))"

definition MBConvBlock_init ::
  "int \<Rightarrow> int \<Rightarrow> ks_arg \<Rightarrow> int \<Rightarrow> real option \<Rightarrow> bool \<Rightarrow> int \<Rightarrow> real
     \<Rightarrow> activation option \<Rightarrow> NormType option \<Rightarrow> MBConvBlock res" where
  "MBConvBlock_init n_inp n_out kernel_size stride se_ratio id_skip expand_ratio
       drop_connect_rate act_cls norm_type =
     (let n_intermed = n_inp * expand_ratio;
          has_se = has_se_of se_ratio;
          base = ConvLayerDynamicPadding_defaults
      in
      rbind (if expand_ratio \<noteq> 1
             then rbind (ConvLayerDynamicPadding_init
                           (base\<lparr>cl_ni := n_inp, cl_nf := n_intermed, cl_ks := KInt 1,
                                  cl_norm_type := norm_type, cl_act_cls := act_cls\<rparr>))
                    (\<lambda>c. Inr (Some c))
             else Inr None)
        (\<lambda>expand_conv.
      rbind (ConvLayerDynamicPadding_init
               (base\<lparr>cl_ni := n_intermed, cl_nf := n_intermed, cl_groups := n_intermed,
                      cl_ks := kernel_size, cl_stride := stride,
                      cl_norm_type := norm_type, cl_act_cls := act_cls\<rparr>))
        (\<lambda>depthwise_conv.
      rbind (if has_se
             then (case se_ratio of
                     None \<Rightarrow> Inl TypeError
                   | Some r \<Rightarrow>
                       (let nsq = num_squeezed_channels n_inp r in
                        rbind (ConvLayerDynamicPadding_init
                                 (base\<lparr>cl_ni := n_intermed, cl_nf := nsq, cl_ks := KInt 1,
                                        cl_act_cls := act_cls, cl_norm_type := None\<rparr>))
                          (\<lambda>squeeze.
                        rbind (ConvLayerDynamicPadding_init
                                 (base\<lparr>cl_ni := nsq, cl_nf := n_intermed, cl_ks := KInt 1,
                                        cl_act_cls := None, cl_norm_type := None\<rparr>))
                          (\<lambda>expand. Inr (Some [squeeze, expand])))))
             else Inr None)
        (\<lambda>squeeze_expand.
      rbind (ConvLayerDynamicPadding_init
               (base\<lparr>cl_ni := n_intermed, cl_nf := n_out, cl_ks := KInt 1,
                      cl_act_cls := None\<rparr>))
        (\<lambda>project_conv.
      rbind (DropConnect_init drop_connect_rate)
        (\<lambda>drop_conncet.
           Inr \<lparr>mb_n_inp = n_inp, mb_n_out = n_out, mb_kernel_size = kernel_size,
                mb_stride = stride, mb_se_ratio = se_ratio, mb_id_skip = id_skip,
                mb_expand_ratio = expand_ratio, mb_drop_connect_rate = drop_connect_rate,
                mb_act_cls = act_cls, mb_norm_type = norm_type,
                mb_expand_conv = expand_conv, mb_depthwise_conv = depthwise_conv,
                mb_has_se = has_se, mb_squeeze_expand = squeeze_expand,
                mb_project_conv = project_conv, mb_drop_conncet = drop_conncet\<rparr>))))))"

text \<open>An \<open>nn.Sequential\<close> of \<open>ConvLayerDynamicPadding\<close> modules.\<close>

fun seq_dp_forward ::
  "'t nn_ops \<Rightarrow> bool \<Rightarrow> ConvLayerDynamicPadding list \<Rightarrow> 't \<Rightarrow> 't res" where
  "seq_dp_forward N training [] x = Inr x"
| "seq_dp_forward N training (m # ms) x =
     (case ConvLayerDynamicPadding_forward N training m x of
        Inl e \<Rightarrow> Inl e
      | Inr y \<Rightarrow> seq_dp_forward N training ms y)"

text \<open>
  \<open>forward\<close>, statement by statement.  \<open>inputs\<close> is bound only when \<open>id_skip\<close> holds;
  reading a missing attribute or an unbound local raises.
\<close>

definition MBConvBlock_forward ::
  "'t tensor_ops \<Rightarrow> 't nn_ops \<Rightarrow> bool \<Rightarrow> MBConvBlock \<Rightarrow> 't \<Rightarrow> 't res" where
  "MBConvBlock_forward T N training m x =
     (let inputs = (if mb_id_skip m then Some x else None) in
      rbind (if mb_expand_ratio m \<noteq> 1
             then (case mb_expand_conv m of
                     None \<Rightarrow> Inl (AttributeError ''expand_conv'')
                   | Some c \<Rightarrow> ConvLayerDynamicPadding_forward N training c x)
             else Inr x)
        (\<lambda>x1.
      rbind (ConvLayerDynamicPadding_forward N training (mb_depthwise_conv m) x1)
        (\<lambda>x2.
      rbind (if mb_has_se m
             then rbind (adaptive_avg_pool3d N x2 1)
                    (\<lambda>x_squeezed.
                  rbind (case mb_squeeze_expand m of
                           None \<Rightarrow> Inl (AttributeError ''squeeze_expand'')
                         | Some se \<Rightarrow> seq_dp_forward N training se x_squeezed)
                    (\<lambda>x_squeezed'.
                  rbind (sigmoid T x_squeezed') (mul T x2)))
             else Inr x2)
        (\<lambda>x3.
      rbind (ConvLayerDynamicPadding_forward N training (mb_project_conv m) x3)
        (\<lambda>x4.
           if mb_id_skip m \<and> mb_stride m = 1 \<and> mb_n_inp m = mb_n_out m
           then rbind (DropConnect_forward T training (mb_drop_conncet m) x4)
                  (\<lambda>d. case inputs of
                          None \<Rightarrow> Inl (NameError ''inputs'')
                        | Some i \<Rightarrow> add T d i)
           else Inr x4)))))"

text \<open>
  The parts of the block as the description of the architecture names them: the output
  of the depthwise convolution (after the expansion, when there is one); squeeze and
  excitation, which multiplies its input by the sigmoid of the squeeze-expand network
  applied to the size-1 adaptive average pool of that input; the convolutional path,
  which ends with the pointwise projection; and the residual, DropConnect of the path
  plus the block input.
\<close>

definition depthwise_output ::
  "'t nn_ops \<Rightarrow> bool \<Rightarrow> MBConvBlock \<Rightarrow> 't \<Rightarrow> 't res" where
  "depthwise_output N training m x =
     rbind (if mb_expand_ratio m \<noteq> 1
            then (case mb_expand_conv m of
                    None \<Rightarrow> Inl (AttributeError ''expand_conv'')
                  | Some c \<Rightarrow> ConvLayerDynamicPadding_forward N training c x)
            else Inr x)
       (ConvLayerDynamicPadding_forward N training (mb_depthwise_conv m))"

definition squeeze_excite ::
  "'t tensor_ops \<Rightarrow> 't nn_ops \<Rightarrow> bool \<Rightarrow> ConvLayerDynamicPadding list \<Rightarrow> 't \<Rightarrow> 't res" where
  "squeeze_excite T N training se y =
     rbind (adaptive_avg_pool3d N y 1)
       (\<lambda>pooled. rbind (seq_dp_forward N training se pooled)
          (\<lambda>e. rbind (sigmoid T e) (\<lambda>gate. mul T y gate)))"

definition conv_path ::
  "'t tensor_ops \<Rightarrow> 't nn_ops \<Rightarrow> bool \<Rightarrow> MBConvBlock \<Rightarrow> 't \<Rightarrow> 't res" where
  "conv_path T N training m x =
     rbind (depthwise_output N training m x)
       (\<lambda>y. rbind (case mb_squeeze_expand m of
                      None \<Rightarrow> Inr y
                    | Some se \<Rightarrow> squeeze_excite T N training se y)
               (ConvLayerDynamicPadding_forward N training (mb_project_conv m)))"

definition residual :: "'t tensor_ops \<Rightarrow> bool \<Rightarrow> MBConvBlock \<Rightarrow> 't \<Rightarrow> 't \<Rightarrow> 't res" where
  "residual T training m x y =
     rbind (DropConnect_forward T training (mb_drop_conncet m) y) (\<lambda>d. add T d x)"

definition project_and_skip ::
  "'t tensor_ops \<Rightarrow> 't nn_ops \<Rightarrow> bool \<Rightarrow> MBConvBlock \<Rightarrow> 't \<Rightarrow> 't \<Rightarrow> 't res" where
  "project_and_skip T N training m x z =
     rbind (ConvLayerDynamicPadding_forward N training (mb_project_conv m) z)
       (\<lambda>y. if mb_id_skip m \<and> mb_stride m = 1 \<and> mb_n_inp m = mb_n_out m
             then residual T training m x y else Inr y)"

section \<open>Modules and nn.Sequential\<close>

datatype module =
    PaddedConv ConvLayerDynamicPadding
  | PlainConv ConvLayer
  | MBConv MBConvBlock
  | Sequential "module list"
  | AdaptiveAvgPool3d int
  | Flatten
  | Dropout real
  | Linear int int
  | Conv3d int int int int

fun module_forward :: "'t tensor_ops \<Rightarrow> 't nn_ops \<Rightarrow> bool \<Rightarrow> module \<Rightarrow> 't \<Rightarrow> 't res"
  and Sequential_forward :: "'t tensor_ops \<Rightarrow> 't nn_ops \<Rightarrow> bool \<Rightarrow> module list \<Rightarrow> 't \<Rightarrow> 't res"
  where
  "module_forward T N training (PaddedConv c) x = ConvLayerDynamicPadding_forward N training c x"
| "module_forward T N training (PlainConv c) x = ConvLayer_forward N training c x"
| "module_forward T N training (MBConv b) x = MBConvBlock_forward T N training b x"
| "module_forward T N training (Sequential ms) x = Sequential_forward T N training ms x"
| "module_forward T N training (AdaptiveAvgPool3d n) x = adaptive_avg_pool3d N x n"
| "module_forward T N training Flatten x = Flatten_forward N x"
| "module_forward T N training (Dropout p) x = Dropout_forward N training p x"
| "module_forward T N training (Linear n_in n_out) x = Linear_forward N n_in n_out x"
| "module_forward T N training (Conv3d n_in n_out k s) x = Conv3d_forward N n_in n_out k s x"
| "Sequential_forward T N training [] x = Inr x"
| "Sequential_forward T N training (m # ms) x =
     (case module_forward T N training m x of
        Inl e \<Rightarrow> Inl e
      | Inr y \<Rightarrow> Sequential_forward T N training ms y)"

section \<open>EfficientNet\<close>

text \<open>One row of the class attribute \<open>block_arguments\<close>.\<close>

record block_args =
  row_num_repeat :: int
  row_kernel_size :: int
  row_stride :: int
  row_expand_ratio :: int
  row_in_channels :: int
  row_out_channels :: int
  row_se_ratio :: real
  row_id_skip :: bool

definition block_row ::
  "int \<Rightarrow> int \<Rightarrow> int \<Rightarrow> int \<Rightarrow> int \<Rightarrow> int \<Rightarrow> block_args" where
  "block_row r k s e i out =
     \<lparr>row_num_repeat = r, row_kernel_size = k, row_stride = s, row_expand_ratio = e,
      row_in_channels = i, row_out_channels = out, row_se_ratio = 1 / 4, row_id_skip = True\<rparr>"

definition block_arguments :: "block_args list" where
  "block_arguments =
     [block_row 1 3 1 1 32 16,
      block_row 2 3 2 6 16 24,
      block_row 2 4 2 6 24 40,
      block_row 3 3 2 6 40 80,
      block_row 3 4 1 6 80 112,
      block_row 4 4 2 6 112 192,
      block_row 1 3 1 6 192 320]"

text \<open>
  The inner loop: \<^verbatim>\<open>for _ in range(num_repeat)\<close> appends one block and then sets
  \<^verbatim>\<open>ni, stride = nf, 1\<close>.
\<close>

fun stack_blocks ::
  "nat \<Rightarrow> int \<Rightarrow> int \<Rightarrow> int \<Rightarrow> int \<Rightarrow> real \<Rightarrow> bool \<Rightarrow> int \<Rightarrow> real
     \<Rightarrow> activation option \<Rightarrow> NormType option \<Rightarrow> module list res" where
  "stack_blocks 0 ni nf ks stride se_ratio id_skip expand_ratio rate act_cls norm_type = Inr []"
| "stack_blocks (Suc k) ni nf ks stride se_ratio id_skip expand_ratio rate act_cls norm_type =
     rbind (MBConvBlock_init ni nf (KInt ks) stride (Some se_ratio) id_skip expand_ratio
              rate act_cls norm_type)
       (\<lambda>b. rbind (stack_blocks k nf nf ks 1 se_ratio id_skip expand_ratio rate
                      act_cls norm_type)
               (\<lambda>bs. Inr (MBConv b # bs)))"

text \<open>
  One pass of \<^verbatim>\<open>for idx, row in self.block_arguments.iterrows()\<close>: it returns the
  stage and the scaled \<open>nf\<close>, which the code after the loop reads.
  \<^verbatim>\<open>if depth_coefficient: num_repeat = int(math.ceil(depth_coefficient * num_repeat))\<close>
\<close>

definition scaled_repeat :: "real option \<Rightarrow> int \<Rightarrow> int" where
  "scaled_repeat depth_coefficient n =
     (case depth_coefficient of
        None \<Rightarrow> n
      | Some c \<Rightarrow> if c = 0 then n else \<lceil>c * of_int n\<rceil>)"

definition build_stage ::
  "real option \<Rightarrow> real option \<Rightarrow> real \<Rightarrow> int \<Rightarrow> int option
     \<Rightarrow> activation option \<Rightarrow> NormType option \<Rightarrow> nat \<Rightarrow> block_args \<Rightarrow> (module \<times> int) res" where
  "build_stage width_coefficient depth_coefficient drop_connect_rate depth_divisor min_depth
       act_cls norm_type idx row =
     rbind (get_n_channels (row_in_channels row) width_coefficient depth_divisor min_depth)
       (\<lambda>ni.
     rbind (get_n_channels (row_out_channels row) width_coefficient depth_divisor min_depth)
       (\<lambda>nf.
     rbind (stack_blocks (nat (scaled_repeat depth_coefficient (row_num_repeat row))) ni nf
              (row_kernel_size row) (row_stride row) (row_se_ratio row) (row_id_skip row) (row_expand_ratio row)
              (drop_connect_rate * real idx / real (length block_arguments))
              act_cls norm_type)
       (\<lambda>conv_block. Inr (Sequential conv_block, nf))))"

fun build_body ::
  "real option \<Rightarrow> real option \<Rightarrow> real \<Rightarrow> int \<Rightarrow> int option
     \<Rightarrow> activation option \<Rightarrow> NormType option \<Rightarrow> nat \<Rightarrow> block_args list
     \<Rightarrow> (module list \<times> int option) res" where
  "build_body wc dc rate dd md act_cls norm_type idx [] = Inr ([], None)"
| "build_body wc dc rate dd md act_cls norm_type idx (row # rows) =
     rbind (build_stage wc dc rate dd md act_cls norm_type idx row)
       (\<lambda>(stage, nf).
          rbind (build_body wc dc rate dd md act_cls norm_type (Suc idx) rows)
            (\<lambda>(stages, nf').
               Inr (stage # stages, (case nf' of None \<Rightarrow> Some nf | Some n \<Rightarrow> Some n))))"

definition EfficientNet_init ::
  "int \<Rightarrow> int \<Rightarrow> real option \<Rightarrow> real option \<Rightarrow> real \<Rightarrow> real \<Rightarrow> int \<Rightarrow> int option
     \<Rightarrow> activation option \<Rightarrow> NormType option \<Rightarrow> module list res" where
  "EfficientNet_init ni num_classes width_coefficient depth_coefficient dropout_rate
       drop_connect_rate depth_divisor min_depth act_cls norm_type =
     rbind (get_n_channels 32 width_coefficient depth_divisor min_depth)
       (\<lambda>nf_stem.
     rbind (ConvLayerDynamicPadding_init
              (ConvLayerDynamicPadding_defaults
                 \<lparr>cl_ni := ni, cl_nf := nf_stem, cl_ks := KInt 3, cl_stride := 2,
                  cl_bias := Some False, cl_act_cls := None, cl_norm_type := norm_type\<rparr>))
       (\<lambda>stem.
     rbind (build_body width_coefficient depth_coefficient drop_connect_rate depth_divisor
              min_depth act_cls norm_type 0 block_arguments)
       (\<lambda>(body, last_nf).
     rbind (case last_nf of None \<Rightarrow> Inl (NameError ''nf'') | Some n \<Rightarrow> Inr n)
       (\<lambda>ni'.
     rbind (get_n_channels ni' width_coefficient depth_divisor min_depth)
       (\<lambda>nf.
     rbind (ConvLayerDynamicPadding_init
              (ConvLayerDynamicPadding_defaults
                 \<lparr>cl_ni := ni', cl_nf := nf, cl_ks := KInt 1,
                  cl_bias := Some False, cl_act_cls := act_cls, cl_norm_type := norm_type\<rparr>))
       (\<lambda>final_conv.
     rbind (Dropout_init dropout_rate)
       (\<lambda>p.
     rbind (if nf < 0 \<or> num_classes < 0 then Inl (RuntimeError ''negative dimension'')
            else Inr (Linear nf num_classes))
       (\<lambda>linear.
          Inr ([PaddedConv stem] @ body @ [PaddedConv final_conv]
               @ [Sequential [AdaptiveAvgPool3d 1, Flatten, Dropout p, linear] ])))))))))"

text \<open>\<open>EfficientNet\<close> is an \<open>nn.Sequential\<close>; its \<open>forward\<close> is the inherited one.\<close>

definition EfficientNet_forward ::
  "'t tensor_ops \<Rightarrow> 't nn_ops \<Rightarrow> bool \<Rightarrow> module list \<Rightarrow> 't \<Rightarrow> 't res" where
  "EfficientNet_forward T N training layers x = Sequential_forward T N training layers x"

section \<open>Shapes: the framework's documented size arithmetic\<close>

text \<open>
  The first instance of the interface computes with shapes only: a tensor is its
  \<open>size()\<close>.  The size rules are those of the PyTorch documentation: the output size of
  a convolution and of a transposed convolution, \<open>F.pad\<close> on the trailing dimensions,
  broadcasting, \<open>torch.cat\<close>, \<open>F.interpolate\<close>, adaptive pooling, \<open>Flatten\<close> and
  \<open>Linear\<close>.  Batch normalisation in training mode rejects an input with a single value
  per channel; instance normalisation rejects a single spatial element.  Activations,
  dropout and the element-wise operations keep the shape.
\<close>

fun map_res :: "('a \<Rightarrow> 'b res) \<Rightarrow> 'a list \<Rightarrow> 'b list res" where
  "map_res f [] = Inr []"
| "map_res f (x # xs) =
     (case f x of
        Inl e \<Rightarrow> Inl e
      | Inr y \<Rightarrow> (case map_res f xs of Inl e \<Rightarrow> Inl e | Inr ys \<Rightarrow> Inr (y # ys)))"

fun broadcast_rev :: "int list \<Rightarrow> int list \<Rightarrow> int list res" where
  "broadcast_rev [] ys = Inr ys"
| "broadcast_rev (x # xs) [] = Inr (x # xs)"
| "broadcast_rev (x # xs) (y # ys) =
     (if x = y \<or> y = 1 then rbind (broadcast_rev xs ys) (\<lambda>r. Inr (x # r))
      else if x = 1 then rbind (broadcast_rev xs ys) (\<lambda>r. Inr (y # r))
      else Inl (RuntimeError ''The size of tensor a must match the size of tensor b''))"

definition broadcast_shapes :: "int list \<Rightarrow> int list \<Rightarrow> int list res" where
  "broadcast_shapes a b = rbind (broadcast_rev (rev a) (rev b)) (\<lambda>r. Inr (rev r))"

definition shape_tensor_ops :: "int list tensor_ops" where
  "shape_tensor_ops =
     \<lparr>shape = (\<lambda>s. s),
      rand = (\<lambda>s. if \<forall>d \<in> set s. 0 \<le> d then Inr s
                   else Inl (RuntimeError ''negative dimension'')),
      add_scalar = (\<lambda>r s. Inr s),
      div_scalar = (\<lambda>s r. Inr s),
      floor_inplace = Inr,
      mul = broadcast_shapes,
      add = broadcast_shapes,
      sigmoid = Inr\<rparr>"

fun pad_rev :: "int list \<Rightarrow> int list \<Rightarrow> int list res" where
  "pad_rev [] ds = Inr ds"
| "pad_rev (l # r # ps) (d # ds) =
     (if d + l + r < 0 then Inl (RuntimeError ''negative output size'')
      else rbind (pad_rev ps ds) (\<lambda>rest. Inr ((d + l + r) # rest)))"
| "pad_rev ps ds = Inl (RuntimeError ''Padding length'')"

definition shape_pad :: "int list \<Rightarrow> real \<Rightarrow> int list \<Rightarrow> int list res" where
  "shape_pad padding v s = rbind (pad_rev padding (rev s)) (\<lambda>r. Inr (rev r))"

definition conv_out_size :: "bool \<Rightarrow> int \<Rightarrow> int \<Rightarrow> int \<Rightarrow> int \<Rightarrow> int \<Rightarrow> int res" where
  "conv_out_size transposed stride' p dil k n =
     (if transposed then
        (let out = (n - 1) * stride' - 2 * p + dil * (k - 1) + 1
         in if n \<le> 0 \<or> out \<le> 0 then Inl (RuntimeError ''output size is too small'')
            else Inr out)
      else if n + 2 * p < dil * (k - 1) + 1
        then Inl (RuntimeError ''Kernel size can't be greater than actual input size'')
      else Inr ((n + 2 * p - dil * (k - 1) - 1) div stride' + 1))"

definition norm_check :: "bool \<Rightarrow> NormType option \<Rightarrow> int list \<Rightarrow> int list res" where
  "norm_check training nt s =
     (if nt \<in> {Some Batch, Some BatchZero} \<and> training
           \<and> hd s * prod_list (drop 2 s) = 1
      then Inl (ValueError ''Expected more than 1 value per channel when training'')
      else if nt \<in> {Some Instance, Some InstanceZero} \<and> prod_list (drop 2 s) = 1
      then Inl (ValueError ''Expected more than 1 spatial element when training'')
      else Inr s)"

definition shape_ConvLayer :: "bool \<Rightarrow> ConvLayer \<Rightarrow> int list \<Rightarrow> int list res" where
  "shape_ConvLayer training c s =
     (case cl_padding c of
        None \<Rightarrow> Inl TypeError
      | Some p \<Rightarrow>
          let ks = ks_tuple (cl_ks c) (cl_ndim c) in
          if cl_ndim c < 1 \<or> 3 < cl_ndim c then Inl (AssertionError ''ndim'')
          else if cl_groups c \<le> 0 \<or> cl_ni c mod cl_groups c \<noteq> 0
                  \<or> cl_nf c mod cl_groups c \<noteq> 0 \<or> cl_ni c < 0 \<or> cl_nf c < 0
            then Inl (ValueError ''channels and groups'')
          else if int (length s) \<noteq> cl_ndim c + 2 \<or> int (length ks) \<noteq> cl_ndim c
            then Inl (RuntimeError ''Expected an input with ndim + 2 dimensions'')
          else if cl_stride c \<le> 0 \<or> cl_dilation c \<le> 0 \<or> p < 0 \<or> (\<exists>k \<in> set ks. k \<le> 0)
            then Inl (RuntimeError ''non-positive stride, dilation or kernel size'')
          else if s ! 1 \<noteq> cl_ni c
            then Inl (RuntimeError ''input channels do not match the weight'')
          else rbind (map_res (\<lambda>(k, n). conv_out_size (cl_transpose c) (cl_stride c) p
                                           (cl_dilation c) k n)
                        (zip ks (drop 2 s)))
                 (\<lambda>sp. norm_check training (cl_norm_type c) (hd s # cl_nf c # sp)))"

definition shape_Conv3d :: "int \<Rightarrow> int \<Rightarrow> int \<Rightarrow> int \<Rightarrow> int list \<Rightarrow> int list res" where
  "shape_Conv3d n_in n_out k stride' s =
     shape_ConvLayer False
       (ConvLayer_defaults\<lparr>cl_ni := n_in, cl_nf := n_out, cl_ks := KInt k,
                           cl_stride := stride', cl_padding := Some 0, cl_ndim := 3,
                           cl_norm_type := None, cl_act_cls := None\<rparr>) s"

definition shape_adaptive_avg_pool3d :: "int list \<Rightarrow> int \<Rightarrow> int list res" where
  "shape_adaptive_avg_pool3d s n =
     (if length s \<noteq> 4 \<and> length s \<noteq> 5
      then Inl (RuntimeError ''adaptive_avg_pool3d: expected a 4D or 5D tensor'')
      else if (\<exists>d \<in> set (tl s). d \<le> 0) \<or> n < 0
      then Inl (RuntimeError ''expected non-zero size for non-batch dimensions'')
      else Inr (take (length s - 3) s @ [n, n, n]))"

definition shape_Flatten :: "int list \<Rightarrow> int list res" where
  "shape_Flatten s =
     (case s of
        b # c # rest \<Rightarrow> Inr [b, prod_list (c # rest)]
      | _ \<Rightarrow> Inl (RuntimeError ''Dimension out of range''))"

definition shape_Linear :: "int \<Rightarrow> int \<Rightarrow> int list \<Rightarrow> int list res" where
  "shape_Linear n_in n_out s =
     (if s = [] \<or> last s \<noteq> n_in
      then Inl (RuntimeError ''mat1 and mat2 shapes cannot be multiplied'')
      else Inr (butlast s @ [n_out]))"

definition shape_interpolate :: "int list \<Rightarrow> int list \<Rightarrow> interp_mode \<Rightarrow> int list res" where
  "shape_interpolate s size' mode =
     (if (mode = Trilinear \<and> length s \<noteq> 5) \<or> length s < 3 \<or> 5 < length s
           \<or> length size' + 2 \<noteq> length s
      then Inl (ValueError ''input and size dimensions do not match the mode'')
      else if (\<exists>d \<in> set (drop 2 s). d \<le> 0) \<or> (\<exists>d \<in> set size'. d \<le> 0)
      then Inl (RuntimeError ''Input and output sizes should be greater than 0'')
      else Inr (take 2 s @ size'))"

definition shape_cat :: "int list list \<Rightarrow> int \<Rightarrow> int list res" where
  "shape_cat ts axis =
     (case ts of
        [] \<Rightarrow> Inl (RuntimeError ''expected a non-empty list of Tensors'')
      | s # ss \<Rightarrow>
          let d = nat (if axis < 0 then axis + int (length s) else axis) in
          if axis + int (length s) < 0 \<or> length s \<le> d
            then Inl IndexError
          else if \<exists>t \<in> set ss. t[d := 0] \<noteq> s[d := 0]
            then Inl (RuntimeError ''Sizes of tensors must match except in the dimension'')
          else Inr (s[d := sum_list (map (\<lambda>t. t ! d) ts)]))"

definition shape_nn_ops :: "int list nn_ops" where
  "shape_nn_ops =
     \<lparr>ConstantPad3d_forward = shape_pad,
      ConvLayer_forward = shape_ConvLayer,
      Conv3d_forward = shape_Conv3d,
      adaptive_avg_pool3d = shape_adaptive_avg_pool3d,
      Flatten_forward = shape_Flatten,
      Dropout_forward = (\<lambda>training p s. Inr s),
      Linear_forward = shape_Linear,
      interpolate = shape_interpolate,
      cat = shape_cat\<rparr>"

section \<open>Values: five-dimensional tensors of exact reals\<close>

text \<open>
  The second instance of the tensor arithmetic computes with values: a tensor of shape
  \<open>(N, C, D, H, W)\<close> is a five-fold nested list.  \<open>torch.rand\<close> draws from a source
  \<open>rnd\<close> of uniform samples, one per element in row-major order.  Multiplication and
  addition broadcast: at each level two lists of equal length are combined
  element by element, and a list of length one is repeated.  The logistic function is
  transcendental; its values are supplied by the parameter \<open>sg\<close>.
\<close>

type_synonym tensor5 = "real list list list list list"

definition map4 :: "(real \<Rightarrow> real) \<Rightarrow> real list list list list \<Rightarrow> real list list list list" where
  "map4 f = map (map (map (map f)))"

definition map5 :: "(real \<Rightarrow> real) \<Rightarrow> tensor5 \<Rightarrow> tensor5" where
  "map5 f = map (map4 f)"

definition head_or_nil :: "'a list list \<Rightarrow> 'a list" where
  "head_or_nil xs = (case xs of [] \<Rightarrow> [] | x # _ \<Rightarrow> x)"

definition shape5 :: "tensor5 \<Rightarrow> int list" where
  "shape5 x =
     (let c = head_or_nil x; d = head_or_nil c; h = head_or_nil d; w = head_or_nil h
      in [int (length x), int (length c), int (length d), int (length h), int (length w)])"

definition rand5 :: "(nat \<Rightarrow> real) \<Rightarrow> int list \<Rightarrow> tensor5 res" where
  "rand5 rnd s =
     (case s of
        [n, c, d, h, w] \<Rightarrow>
          if n < 0 \<or> c < 0 \<or> d < 0 \<or> h < 0 \<or> w < 0
          then Inl (RuntimeError ''negative dimension'')
          else Inr (map (\<lambda>i. map (\<lambda>j. map (\<lambda>k. map (\<lambda>l. map (\<lambda>m.
                      rnd ((((i * nat c + j) * nat d + k) * nat h + l) * nat w + m))
                    [0..<nat w]) [0..<nat h]) [0..<nat d]) [0..<nat c]) [0..<nat n])
      | _ \<Rightarrow> Inl (RuntimeError ''only five-dimensional tensors are modelled''))"

definition broadcast_zip ::
  "('a \<Rightarrow> 'b \<Rightarrow> 'c res) \<Rightarrow> 'a list \<Rightarrow> 'b list \<Rightarrow> 'c list res" where
  "broadcast_zip f xs ys =
     (if length xs = length ys then map_res (\<lambda>(x, y). f x y) (zip xs ys)
      else if length ys = 1 then map_res (\<lambda>x. f x (hd ys)) xs
      else if length xs = 1 then map_res (\<lambda>y. f (hd xs) y) ys
      else Inl (RuntimeError ''The size of tensor a must match the size of tensor b''))"

definition broadcast5 :: "(real \<Rightarrow> real \<Rightarrow> real) \<Rightarrow> tensor5 \<Rightarrow> tensor5 \<Rightarrow> tensor5 res" where
  "broadcast5 f =
     broadcast_zip (broadcast_zip (broadcast_zip (broadcast_zip (broadcast_zip
       (\<lambda>a b. Inr (f a b))))))"

definition div_scalar5 :: "tensor5 \<Rightarrow> real \<Rightarrow> tensor5 res" where
  "div_scalar5 x r =
     (if r = 0 \<and> concat (concat (concat (concat x))) \<noteq> [] then Inl NonFinite
      else Inr (map5 (\<lambda>v. v / r) x))"

definition list_tensor_ops :: "(nat \<Rightarrow> real) \<Rightarrow> (real \<Rightarrow> real) \<Rightarrow> tensor5 tensor_ops" where
  "list_tensor_ops rnd sg =
     \<lparr>shape = shape5,
      rand = rand5 rnd,
      add_scalar = (\<lambda>r x. Inr (map5 (\<lambda>v. r + v) x)),
      div_scalar = div_scalar5,
      floor_inplace = (\<lambda>x. Inr (map5 (\<lambda>v. of_int \<lfloor>v\<rfloor>) x)),
      mul = broadcast5 (*),
      add = broadcast5 (+),
      sigmoid = (\<lambda>x. Inr (map5 sg x))\<rparr>"

section \<open>ASPP\<close>

text \<open>
  \<open>ASPPPooling\<close> is an \<open>nn.Sequential\<close> of \<open>AdaptiveAvgPool3d(1)\<close> and a \<open>ConvLayer\<close>
  (always built with \<open>norm_type=None\<close>); its \<open>forward\<close> runs both and interpolates the
  result to the spatial size \<open>x.shape[-3:]\<close> of its input, \<open>mode='trilinear'\<close>.
\<close>

record ASPPPooling =
  ap_pool :: int
  ap_conv :: ConvLayer

text \<open>
  The two kinds of \<open>ConvLayer\<close> calls of the module:
  \<^verbatim>\<open>ConvLayer(ni=ni, nf=nf, ks=1, bias=False, ndim=3, norm_type=..., act_cls=act_cls)\<close> and
  \<^verbatim>\<open>ConvLayer(ni=ni, nf=nf, ndim=3, ks=3, dilation=dilation, padding=dilation, ...)\<close>.
\<close>

definition pointwise_args ::
  "int \<Rightarrow> int \<Rightarrow> NormType option \<Rightarrow> activation option \<Rightarrow> ConvLayer" where
  "pointwise_args n_in n_out norm_type act_cls =
     ConvLayer_defaults\<lparr>cl_ni := n_in, cl_nf := n_out, cl_ks := KInt 1, cl_bias := Some False,
                         cl_ndim := 3, cl_norm_type := norm_type, cl_act_cls := act_cls\<rparr>"

definition atrous_args ::
  "int \<Rightarrow> int \<Rightarrow> NormType option \<Rightarrow> activation option \<Rightarrow> int \<Rightarrow> ConvLayer" where
  "atrous_args n_in n_out norm_type act_cls dilation =
     ConvLayer_defaults\<lparr>cl_ni := n_in, cl_nf := n_out, cl_ndim := 3, cl_ks := KInt 3,
                         cl_dilation := dilation, cl_padding := Some dilation,
                         cl_norm_type := norm_type, cl_act_cls := act_cls\<rparr>"

definition ASPPPooling_init ::
  "int \<Rightarrow> int \<Rightarrow> NormType option \<Rightarrow> activation option \<Rightarrow> ASPPPooling res" where
  "ASPPPooling_init n_in n_out norm_type act_cls =
     rbind (ConvLayer_init (pointwise_args n_in n_out None act_cls))
       (\<lambda>c. Inr \<lparr>ap_pool = 1, ap_conv = c\<rparr>)"

definition ASPPPooling_forward ::
  "'t tensor_ops \<Rightarrow> 't nn_ops \<Rightarrow> bool \<Rightarrow> ASPPPooling \<Rightarrow> 't \<Rightarrow> 't res" where
  "ASPPPooling_forward T N training m x =
     (let size' = last3 (shape T x) in
      rbind (adaptive_avg_pool3d N x (ap_pool m))
        (\<lambda>y. rbind (ConvLayer_forward N training (ap_conv m) y)
           (\<lambda>z. interpolate N z size' Trilinear)))"

text \<open>
  \<open>ASPP.__init__\<close>: \<open>self.layers\<close> holds the 1x1 convolution, one convolution with
  \<open>ks=3, dilation=d, padding=d\<close> for each \<open>d\<close> of \<open>dilations\<close>, and the pooling branch;
  \<open>self.project\<close> is a 1x1 convolution from \<open>len(self.layers)*nf\<close> channels followed by
  \<open>nn.Dropout(ps)\<close>.
\<close>

datatype aspp_branch = ConvBranch ConvLayer | PoolBranch ASPPPooling

record ASPP =
  aspp_layers :: "aspp_branch list"
  aspp_project :: ConvLayer
  aspp_dropout :: real

definition ASPP_init ::
  "int \<Rightarrow> int list \<Rightarrow> int \<Rightarrow> NormType option \<Rightarrow> activation option \<Rightarrow> real \<Rightarrow> ASPP res" where
  "ASPP_init n_in dilations n_out norm_type act_cls ps =
     rbind (ConvLayer_init (pointwise_args n_in n_out norm_type act_cls))
       (\<lambda>conv1.
     rbind (map_res (\<lambda>dilation.
                ConvLayer_init (atrous_args n_in n_out norm_type act_cls dilation))
              dilations)
       (\<lambda>atrous.
     rbind (ASPPPooling_init n_in n_out norm_type act_cls)
       (\<lambda>pooling.
          let layers = map ConvBranch (conv1 # atrous) @ [PoolBranch pooling] in
     rbind (ConvLayer_init
              (pointwise_args (int (length layers) * n_out) n_out norm_type act_cls))
       (\<lambda>project.
     rbind (Dropout_init ps)
       (\<lambda>p. Inr \<lparr>aspp_layers = layers, aspp_project = project, aspp_dropout = p\<rparr>)))))"

fun branch_forward ::
  "'t tensor_ops \<Rightarrow> 't nn_ops \<Rightarrow> bool \<Rightarrow> aspp_branch \<Rightarrow> 't \<Rightarrow> 't res" where
  "branch_forward T N training (ConvBranch c) x = ConvLayer_forward N training c x"
| "branch_forward T N training (PoolBranch p) x = ASPPPooling_forward T N training p x"

text \<open>
  \<^verbatim>\<open>res = [module(x) for module in self.layers]\<close>
  \<^verbatim>\<open>return self.project(torch.cat(res, dim=1))\<close>
\<close>

definition ASPP_forward :: "'t tensor_ops \<Rightarrow> 't nn_ops \<Rightarrow> bool \<Rightarrow> ASPP \<Rightarrow> 't \<Rightarrow> 't res" where
  "ASPP_forward T N training m x =
     rbind (map_res (\<lambda>b. branch_forward T N training b x) (aspp_layers m))
       (\<lambda>res. rbind (cat N res 1)
          (\<lambda>c. rbind (ConvLayer_forward N training (aspp_project m) c)
             (Dropout_forward N training (aspp_dropout m))))"

section \<open>DeepLabDecoder\<close>

text \<open>
  The decoder keeps a hook; \<open>forward\<close> reads what the hook has stored.  The stored
  tensors are an argument of the model's \<open>forward\<close>.  \<open>sum(...)\<close> is Python's: it starts
  from the integer 0, so on an empty list it returns 0, which the convolution rejects.
\<close>

record DeepLabDecoder =
  dd_low_lvl_conv :: ConvLayer
  dd_last_conv :: "module list"

definition DeepLabDecoder_init ::
  "int \<Rightarrow> int \<Rightarrow> int \<Rightarrow> NormType option \<Rightarrow> activation option \<Rightarrow> real \<Rightarrow> DeepLabDecoder res"
  where
  "DeepLabDecoder_init n_in low_lvl_ni n_out norm_type act_cls ps =
     (let base = ConvLayer_defaults\<lparr>cl_ndim := 3, cl_bias := Some False,
                                     cl_norm_type := norm_type, cl_act_cls := act_cls\<rparr>
      in
      rbind (ConvLayer_init (base\<lparr>cl_ni := low_lvl_ni, cl_nf := low_lvl_ni div 2,
                                   cl_ks := KInt 1\<rparr>))
        (\<lambda>low_lvl_conv.
      rbind (ConvLayer_init (base\<lparr>cl_ni := n_in + low_lvl_ni div 2, cl_nf := n_in,
                                   cl_ks := KInt 3, cl_stride := 1, cl_padding := Some 1\<rparr>))
        (\<lambda>conv_a.
      rbind (Dropout_init ps)
        (\<lambda>pa.
      rbind (ConvLayer_init (base\<lparr>cl_ni := n_in, cl_nf := n_in, cl_ks := KInt 3,
                                   cl_stride := 1, cl_padding := Some 1\<rparr>))
        (\<lambda>conv_b.
      rbind (Dropout_init (ps / 5))
        (\<lambda>pb.
           Inr \<lparr>dd_low_lvl_conv = low_lvl_conv,
                dd_last_conv = [PlainConv conv_a, Dropout pa, PlainConv conv_b, Dropout pb,
                                Conv3d n_in n_out 1 1]\<rparr>))))))"

fun sum_from :: "'t tensor_ops \<Rightarrow> 't \<Rightarrow> 't list \<Rightarrow> 't res" where
  "sum_from T acc [] = Inr acc"
| "sum_from T acc (x # xs) = rbind (add T acc x) (\<lambda>a. sum_from T a xs)"

definition py_sum :: "'t tensor_ops \<Rightarrow> 't list \<Rightarrow> 't res" where
  "py_sum T xs =
     (case xs of
        [] \<Rightarrow> Inl TypeError
      | x # rest \<Rightarrow> rbind (add_scalar T 0 x) (\<lambda>a. sum_from T a rest))"

text \<open>
  \<^verbatim>\<open>s = self.low_lvl_conv(sum(self.hook.stored))\<close>
  \<^verbatim>\<open>ssh = s.shape[-3:]\<close>
  \<^verbatim>\<open>if ssh != x.shape[-3:]: x = F.interpolate(x, size=ssh, mode='nearest')\<close>
  \<^verbatim>\<open>x = torch.cat((x, s), dim=1)\<close>
  \<^verbatim>\<open>return self.last_conv(x)\<close>
\<close>

definition DeepLabDecoder_forward ::
  "'t tensor_ops \<Rightarrow> 't nn_ops \<Rightarrow> bool \<Rightarrow> DeepLabDecoder \<Rightarrow> 't list \<Rightarrow> 't \<Rightarrow> 't res" where
  "DeepLabDecoder_forward T N training m stored x =
     rbind (py_sum T stored)
       (\<lambda>total. rbind (ConvLayer_forward N training (dd_low_lvl_conv m) total)
          (\<lambda>s. let ssh = last3 (shape T s) in
             rbind (if ssh \<noteq> last3 (shape T x) then interpolate N x ssh Nearest else Inr x)
               (\<lambda>x'. rbind (cat N [x', s] 1)
                  (Sequential_forward T N training (dd_last_conv m)))))"

section \<open>DynamicDeepLab\<close>

text \<open>
  The constructor inspects the encoder through \<open>model_sizes\<close>, \<open>_get_sz_change_idxs\<close>,
  \<open>hook_outputs\<close> and \<open>dummy_eval\<close>, none of which is defined in the files at hand.
  They are parameters: \<open>model_sizes\<close> returns the sizes of the encoder's layer outputs
  on a dummy input, \<open>hook_outputs_at m i\<close> stands for \<open>hook_outputs(m[i], detach=False)\<close>
  and returns the hooks, and \<open>dummy_eval\<close> returns the encoder's output on the dummy
  input together with what the given hooks stored during that pass.
\<close>

record ('m, 'h, 't) introspection =
  model_sizes :: "'m \<Rightarrow> int list \<Rightarrow> int list list res"
  get_sz_change_idxs :: "int list list \<Rightarrow> int list"
  hook_outputs_at :: "'m \<Rightarrow> int \<Rightarrow> 'h res"
  dummy_eval :: "'m \<Rightarrow> 'h \<Rightarrow> int list \<Rightarrow> ('t \<times> 't list) res"

record ('m, 'h) DynamicDeepLab =
  dl_sfs :: 'h
  dl_encoder :: 'm
  dl_aspp :: ASPP
  dl_decoder :: DeepLabDecoder

text \<open>
  \<open>__init__\<close>.  The ASPP and the decoder are put in evaluation mode (\<open>.eval()\<close>) before
  the dummy pass goes through them; the results of that pass are dropped, its
  exceptions are not.
\<close>

definition DynamicDeepLab_init ::
  "('m, 'h, 't) introspection \<Rightarrow> 't tensor_ops \<Rightarrow> 't nn_ops \<Rightarrow> 'm \<Rightarrow> int \<Rightarrow> int list
     \<Rightarrow> activation option \<Rightarrow> NormType option \<Rightarrow> ('m, 'h) DynamicDeepLab res" where
  "DynamicDeepLab_init F T N encoder n_out img_size act_cls norm_type =
     rbind (model_sizes F encoder img_size)
       (\<lambda>sizes. let sz_chg_idxs = get_sz_change_idxs F sizes in
     rbind (py_index sz_chg_idxs 1)
       (\<lambda>idx.
     rbind (hook_outputs_at F encoder idx)
       (\<lambda>sfs.
     rbind (dummy_eval F encoder sfs img_size)
       (\<lambda>(x, stored).
     rbind (rbind (py_index sizes (- 1)) (\<lambda>s. py_index s 1))
       (\<lambda>n_in. let nf = n_in div 4;
                   dilations = (if n_in > 512 then [1, 12, 24, 36] else [1, 6, 12, 18]) in
     rbind (ASPP_init n_in dilations nf norm_type act_cls (1 / 2))
       (\<lambda>aspp.
     rbind (ASPP_forward T N False aspp x)
       (\<lambda>x1.
     rbind (rbind (py_index sizes idx) (\<lambda>s. py_index s 1))
       (\<lambda>low_lvl_ni.
     rbind (DeepLabDecoder_init nf low_lvl_ni n_out norm_type act_cls (1 / 2))
       (\<lambda>decoder.
     rbind (DeepLabDecoder_forward T N False decoder stored x1)
       (\<lambda>x2.
          Inr \<lparr>dl_sfs = sfs, dl_encoder = encoder, dl_aspp = aspp,
               dl_decoder = decoder\<rparr>))))))))))"

text \<open>
  An encoder seen through the introspection only: the sizes of its layers, and its
  output and hooked features on the dummy input (here as shapes).  The size-change
  indices are those positions \<open>i\<close> at which the last entry of \<open>sizes[i]\<close> differs from
  the last entry of \<open>sizes[i+1]\<close>, as in fastai.
\<close>

record observed_encoder =
  enc_sizes :: "int list list"
  enc_output :: "int list"
  enc_stored :: "int list list"

definition sz_change_idxs :: "int list list \<Rightarrow> int list" where
  "sz_change_idxs sizes =
     (let feature_szs = map (\<lambda>s. if s = [] then 0 else last s) sizes
      in map int (filter (\<lambda>i. feature_szs ! i \<noteq> feature_szs ! Suc i)
                    [0..<length feature_szs - 1]))"

definition observed :: "(observed_encoder, int, int list) introspection" where
  "observed =
     \<lparr>model_sizes = (\<lambda>m size'. Inr (enc_sizes m)),
      get_sz_change_idxs = sz_change_idxs,
      hook_outputs_at = (\<lambda>m i. if 0 \<le> i \<and> i < int (length (enc_sizes m)) then Inr i
                                 else Inl IndexError),
      dummy_eval = (\<lambda>m h size'. Inr (enc_output m, enc_stored m))\<rparr>"

section \<open>Construct and call; three-dimensional layers\<close>

text \<open>\<open>EfficientNet(...)(x)\<close>: construct the network, then call it.\<close>

definition EfficientNet_call ::
  "'t tensor_ops \<Rightarrow> 't nn_ops \<Rightarrow> bool \<Rightarrow> int \<Rightarrow> int \<Rightarrow> real option \<Rightarrow> real option \<Rightarrow> real
     \<Rightarrow> real \<Rightarrow> int \<Rightarrow> int option \<Rightarrow> activation option \<Rightarrow> NormType option \<Rightarrow> 't \<Rightarrow> 't res"
  where
  "EfficientNet_call T N training ni num_classes width_coefficient depth_coefficient
       dropout_rate drop_connect_rate depth_divisor min_depth act_cls norm_type x =
     rbind (EfficientNet_init ni num_classes width_coefficient depth_coefficient dropout_rate
              drop_connect_rate depth_divisor min_depth act_cls norm_type)
       (\<lambda>layers. EfficientNet_forward T N training layers x)"

text \<open>
  In the model the pooling, the padding layer and the bare convolution exist in their
  three-dimensional form only (\<open>AdaptiveAvgPool3d\<close>, \<open>ConstantPad3d\<close>, \<open>Conv3d\<close>); what can
  vary is the \<open>ndim\<close> of a \<open>ConvLayer\<close>, which selects \<open>Conv1d\<close>, \<open>Conv2d\<close> or \<open>Conv3d\<close>
  (and the matching normalisation), and the length of the padding list, two entries
  for each padded axis.  A module is three-dimensional when every convolution in it
  has \<open>ndim = 3\<close> and every padding layer pads three axes.
\<close>

definition padded_conv_3d :: "ConvLayerDynamicPadding \<Rightarrow> bool" where
  "padded_conv_3d c \<longleftrightarrow> cl_ndim (dp_conv c) = 3 \<and> length (dp_padding c) = 6"

definition MBConvBlock_3d :: "MBConvBlock \<Rightarrow> bool" where
  "MBConvBlock_3d m \<longleftrightarrow>
     (case mb_expand_conv m of None \<Rightarrow> True | Some c \<Rightarrow> padded_conv_3d c)
     \<and> padded_conv_3d (mb_depthwise_conv m)
     \<and> (case mb_squeeze_expand m of None \<Rightarrow> True | Some se \<Rightarrow> list_all padded_conv_3d se)
     \<and> padded_conv_3d (mb_project_conv m)"

fun module_3d :: "module \<Rightarrow> bool" where
  "module_3d (PaddedConv c) = padded_conv_3d c"
| "module_3d (PlainConv c) = (cl_ndim c = 3)"
| "module_3d (MBConv b) = MBConvBlock_3d b"
| "module_3d (Sequential ms) = (\<forall>m \<in> set ms. module_3d m)"
| "module_3d (AdaptiveAvgPool3d n) = True"
| "module_3d Flatten = True"
| "module_3d (Dropout p) = True"
| "module_3d (Linear n_in n_out) = True"
| "module_3d (Conv3d n_in n_out k s) = True"

definition branch_3d :: "aspp_branch \<Rightarrow> bool" where
  "branch_3d br = (case br of ConvBranch c \<Rightarrow> cl_ndim c = 3 | PoolBranch p \<Rightarrow> cl_ndim (ap_conv p) = 3)"

section \<open>Basic facts\<close>

lemma rbind_Inr [simp]: "rbind (Inr x) f = f x"
  by (simp add: rbind_def)

lemma rbind_Inl [simp]: "rbind (Inl e) f = Inl e"
  by (simp add: rbind_def)

lemma rbind_eq_Inr: "rbind m f = Inr y \<longleftrightarrow> (\<exists>x. m = Inr x \<and> f x = Inr y)"
  by (cases m) simp_all

lemma py_index_0 [simp]: "py_index (x # xs) 0 = Inr x"
  by (simp add: py_index_def)

lemma ks_tuple_KTuple [simp]: "ks_tuple (KTuple t) n = t"
  by (simp add: ks_tuple_def)

lemma ks_tuple_KInt_3 [simp]: "ks_tuple (KInt k) 3 = [k, k, k]"
  by (simp add: ks_tuple_def numeral_3_eq_3)

section \<open>Channel rounding\<close>

lemma py_int_nonneg: "0 \<le> x \<Longrightarrow> py_int x = \<lfloor>x\<rfloor>"
  by (simp add: py_int_def)

lemma round_to_multiple_lower:
  fixes d :: int and y :: real
  assumes "0 < d"
  shows "y - of_int d < of_int (\<lfloor>y\<rfloor> div d * d)"
proof -
  have "\<lfloor>y\<rfloor> div d * d = \<lfloor>y\<rfloor> - \<lfloor>y\<rfloor> mod d"
    by (simp add: minus_mod_eq_div_mult)
  moreover have "\<lfloor>y\<rfloor> mod d < d"
    using assms by simp
  ultimately have "\<lfloor>y\<rfloor> - d < \<lfloor>y\<rfloor> div d * d"
    by linarith
  then have "\<lfloor>y\<rfloor> - d + 1 \<le> \<lfloor>y\<rfloor> div d * d"
    by linarith
  then have "of_int (\<lfloor>y\<rfloor> - d + 1) \<le> (of_int (\<lfloor>y\<rfloor> div d * d) :: real)"
    by (simp only: of_int_le_iff)
  then have "of_int \<lfloor>y\<rfloor> - of_int d + 1 \<le> (of_int (\<lfloor>y\<rfloor> div d * d) :: real)"
    by simp
  moreover have "y < of_int \<lfloor>y\<rfloor> + 1"
    by linarith
  ultimately show ?thesis
    by linarith
qed

lemma get_n_channels_value:
  assumes "w \<noteq> 0" and "d \<noteq> 0"
  shows "get_n_channels n (Some w) d None =
           Inr (let r = max d (py_int (of_int n * w + of_int d / 2) div d * d)
                in if of_int r < (9 / 10) * (of_int n * w) then r + d else r)"
  using assms by (simp add: get_n_channels_def Let_def)

section \<open>DropConnect on values\<close>

lemma map_res_pure:
  assumes "\<And>z. z \<in> set zs \<Longrightarrow> f z = Inr (g z)"
  shows "map_res f zs = Inr (map g zs)"
  using assms by (induction zs) simp_all

lemma broadcast_zip_single:
  assumes "\<And>a. a \<in> set xs \<Longrightarrow> f a y = Inr (g a)"
  shows "broadcast_zip f xs [y] = Inr (map g xs)"
proof (cases "length xs = 1")
  case True
  then obtain a where xs: "xs = [a]"
    by (cases xs) auto
  with assms show ?thesis
    by (simp add: broadcast_zip_def)
next
  case False
  then have "broadcast_zip f xs [y] = map_res (\<lambda>a. f a y) xs"
    by (simp add: broadcast_zip_def)
  also have "\<dots> = Inr (map g xs)"
    using assms by (rule map_res_pure)
  finally show ?thesis .
qed

lemma broadcast_mask:
  "broadcast_zip (broadcast_zip (broadcast_zip (broadcast_zip (\<lambda>a b. Inr (f a b))))) e [ [ [ [u] ] ] ]
     = Inr (map4 (\<lambda>v. f v u) e)"
  unfolding map4_def
  by (intro broadcast_zip_single) simp

lemma broadcast_zip_same_length:
  "length xs = length ys \<Longrightarrow> broadcast_zip f xs ys = map_res (\<lambda>(x, y). f x y) (zip xs ys)"
  by (simp add: broadcast_zip_def)

lemma broadcast5_batch_mask:
  assumes "length ms = length x"
  shows "broadcast5 f x (map (\<lambda>u. [ [ [ [u] ] ] ]) ms)
           = Inr (map (\<lambda>(e, u). map4 (\<lambda>v. f v u) e) (zip x ms))"
proof -
  have "broadcast5 f x (map (\<lambda>u. [ [ [ [u] ] ] ]) ms)
          = map_res (\<lambda>(e, m). broadcast_zip (broadcast_zip (broadcast_zip (broadcast_zip
                (\<lambda>a b. Inr (f a b))))) e m) (zip x (map (\<lambda>u. [ [ [ [u] ] ] ]) ms))"
    unfolding broadcast5_def using assms by (intro broadcast_zip_same_length) simp
  also have "zip x (map (\<lambda>u. [ [ [ [u] ] ] ]) ms) = map (\<lambda>(e, u). (e, [ [ [ [u] ] ] ])) (zip x ms)"
    by (simp add: zip_map2)
  also have "map_res (\<lambda>(e, m). broadcast_zip (broadcast_zip (broadcast_zip (broadcast_zip
                (\<lambda>a b. Inr (f a b))))) e m) (map (\<lambda>(e, u). (e, [ [ [ [u] ] ] ])) (zip x ms))
        = Inr (map ((\<lambda>(e, m). map4 (\<lambda>v. f v (hd (hd (hd (hd m))))) e)) (map (\<lambda>(e, u). (e, [ [ [ [u] ] ] ])) (zip x ms)))"
    by (rule map_res_pure) (auto simp: broadcast_mask)
  finally show ?thesis
    by (simp add: case_prod_unfold comp_def)
qed

lemma rand5_mask:
  "0 \<le> n \<Longrightarrow> rand5 rnd [n, 1, 1, 1, 1] = Inr (map (\<lambda>i. [ [ [ [rnd i] ] ] ]) [0..<nat n])"
  by (simp add: rand5_def)

lemma random_tensor_value:
  "random_tensor (list_tensor_ops rnd sg) m x
     = Inr (map (\<lambda>i. [ [ [ [keep_prob m + rnd i] ] ] ]) [0..<length x])"
  by (simp add: random_tensor_def list_tensor_ops_def shape5_def Let_def rand5_mask map5_def
      map4_def comp_def)

lemma DropConnect_forward_value:
  assumes "keep_prob m \<noteq> 0"
  shows "DropConnect_forward (list_tensor_ops rnd sg) True m x
     = Inr (map (\<lambda>n. map4 (\<lambda>v. v / keep_prob m * of_int \<lfloor>keep_prob m + rnd n\<rfloor>) (x ! n)) [0..<length x])"
proof -
  let ?ms = "map (\<lambda>i. of_int \<lfloor>keep_prob m + rnd i\<rfloor>) [0..<length x]"
  have fl: "floor_inplace (list_tensor_ops rnd sg) (map (\<lambda>i. [ [ [ [keep_prob m + rnd i] ] ] ]) [0..<length x])
          = Inr (map (\<lambda>u. [ [ [ [u] ] ] ]) ?ms)"
    by (simp add: list_tensor_ops_def map5_def map4_def comp_def)
  have dv: "div_scalar (list_tensor_ops rnd sg) x (keep_prob m) = Inr (map5 (\<lambda>v. v / keep_prob m) x)"
    using assms by (simp add: list_tensor_ops_def div_scalar5_def)
  have ml: "mul (list_tensor_ops rnd sg) = broadcast5 (*)"
    by (simp add: list_tensor_ops_def)
  have "DropConnect_forward (list_tensor_ops rnd sg) True m x
          = broadcast5 (*) (map5 (\<lambda>v. v / keep_prob m) x) (map (\<lambda>u. [ [ [ [u] ] ] ]) ?ms)"
    by (simp add: DropConnect_forward_def random_tensor_value fl dv ml)
  also have "\<dots> = Inr (map (\<lambda>(e, u). map4 (\<lambda>v. v * u) e) (zip (map5 (\<lambda>v. v / keep_prob m) x) ?ms))"
    by (rule broadcast5_batch_mask) (simp add: map5_def)
  also have "map (\<lambda>(e, u). map4 (\<lambda>v. v * u) e) (zip (map5 (\<lambda>v. v / keep_prob m) x) ?ms)
      = map (\<lambda>n. map4 (\<lambda>v. v / keep_prob m * of_int \<lfloor>keep_prob m + rnd n\<rfloor>) (x ! n)) [0..<length x]"
    by (rule nth_equalityI) (simp_all add: map5_def map4_def comp_def)
  finally show ?thesis .
qed

section \<open>Padding and the size of a padded convolution\<close>

lemma calculate_padding_props:
  assumes "1 \<le> ks"
  shows "0 \<le> fst (calculate_padding ks)" and "0 \<le> snd (calculate_padding ks)"
    and "fst (calculate_padding ks) + snd (calculate_padding ks) = ks - 1"
    and "odd ks \<Longrightarrow> fst (calculate_padding ks) = snd (calculate_padding ks)"
    and "even ks \<Longrightarrow> fst (calculate_padding ks) = snd (calculate_padding ks) + 1"
  using assms by (simp_all add: calculate_padding_def; presburger)+

lemma ConvLayer_init_Inr:
  assumes "ConvLayer_init a = Inr c"
  shows "0 < cl_groups a" and "cl_ni a mod cl_groups a = 0" and "cl_nf a mod cl_groups a = 0"
    and "0 \<le> cl_ni a" and "0 \<le> cl_nf a"
    and "cl_padding a = Some p \<Longrightarrow> c = a"
  using assms by (auto simp: ConvLayer_init_def rbind_eq_Inr split: if_splits option.splits)

lemma ConvLayerDynamicPadding_init_Inr:
  assumes "ConvLayerDynamicPadding_init a = Inr m"
  shows "dp_padding m = rev (padding_list (ks_tuple (cl_ks a) (cl_ndim a)))"
    and "dp_value m = 0"
    and "dp_conv m = a\<lparr>cl_ks := KTuple (ks_tuple (cl_ks a) (cl_ndim a)), cl_padding := Some 0\<rparr>"
    and "0 < cl_groups a" and "cl_ni a mod cl_groups a = 0" and "cl_nf a mod cl_groups a = 0"
    and "0 \<le> cl_ni a" and "0 \<le> cl_nf a"
proof -
  let ?a' = "a\<lparr>cl_ks := KTuple (ks_tuple (cl_ks a) (cl_ndim a)), cl_padding := Some 0\<rparr>"
  from assms obtain c where c: "ConvLayer_init ?a' = Inr c"
    and m: "m = \<lparr>dp_padding = rev (padding_list (ks_tuple (cl_ks a) (cl_ndim a))),
                  dp_value = 0, dp_conv = c\<rparr>"
    by (auto simp: ConvLayerDynamicPadding_init_def Let_def rbind_eq_Inr)
  have "c = ?a'"
    using ConvLayer_init_Inr(6) [OF c, of 0] by simp
  with m show "dp_padding m = rev (padding_list (ks_tuple (cl_ks a) (cl_ndim a)))"
    and "dp_value m = 0" and "dp_conv m = ?a'"
    by simp_all
  show "0 < cl_groups a" and "cl_ni a mod cl_groups a = 0" and "cl_nf a mod cl_groups a = 0"
    and "0 \<le> cl_ni a" and "0 \<le> cl_nf a"
    using ConvLayer_init_Inr(1-5) [OF c] by simp_all
qed

lemma ConvLayerDynamicPadding_init_ok:
  assumes "0 < cl_groups a" and "cl_ni a mod cl_groups a = 0" and "cl_nf a mod cl_groups a = 0"
    and "0 \<le> cl_ni a" and "0 \<le> cl_nf a"
  shows "\<exists>m. ConvLayerDynamicPadding_init a = Inr m"
  using assms by (simp add: ConvLayerDynamicPadding_init_def ConvLayer_init_def Let_def)

lemma padded_shape:
  assumes "1 \<le> k1" and "1 \<le> k2" and "1 \<le> k3" and "0 \<le> d" and "0 \<le> h" and "0 \<le> w"
  shows "shape_pad (rev (padding_list [k1, k2, k3])) v [b, c, d, h, w]
           = Inr [b, c, d + k1 - 1, h + k2 - 1, w + k3 - 1]"
proof -
  note cp = calculate_padding_props(1-3)
  have "d + fst (calculate_padding k1) + snd (calculate_padding k1) = d + k1 - 1"
    "h + fst (calculate_padding k2) + snd (calculate_padding k2) = h + k2 - 1"
    "w + fst (calculate_padding k3) + snd (calculate_padding k3) = w + k3 - 1"
    using cp(3) [OF assms(1)] cp(3) [OF assms(2)] cp(3) [OF assms(3)] by linarith+
  moreover have "\<not> d + k1 - 1 < 0" "\<not> h + k2 - 1 < 0" "\<not> w + k3 - 1 < 0"
    using assms by linarith+
  ultimately show ?thesis
    by (simp add: shape_pad_def padding_list_def add.commute add.left_commute)
qed

lemma conv_out_size_plain:
  assumes "1 \<le> n" and "1 \<le> k"
  shows "conv_out_size False s 0 1 k (n + k - 1) = Inr ((n - 1) div s + 1)"
  using assms by (simp add: conv_out_size_def algebra_simps)

lemma ConvLayerDynamicPadding_forward_shape:
  assumes init: "ConvLayerDynamicPadding_init a = Inr m"
    and nd: "cl_ndim a = 3" and ks: "ks_tuple (cl_ks a) 3 = [k1, k2, k3]"
    and k: "1 \<le> k1" "1 \<le> k2" "1 \<le> k3"
    and st: "1 \<le> cl_stride a" and dil: "cl_dilation a = 1" and tr: "\<not> cl_transpose a"
    and sz: "1 \<le> d" "1 \<le> h" "1 \<le> w"
  shows "ConvLayerDynamicPadding_forward shape_nn_ops training m [b, cl_ni a, d, h, w]
           = norm_check training (cl_norm_type a)
               [b, cl_nf a, (d - 1) div cl_stride a + 1, (h - 1) div cl_stride a + 1,
                (w - 1) div cl_stride a + 1]"
proof -
  note i = ConvLayerDynamicPadding_init_Inr [OF init]
  have pad: "ConstantPad3d_forward shape_nn_ops (dp_padding m) (dp_value m) [b, cl_ni a, d, h, w]
               = Inr [b, cl_ni a, d + k1 - 1, h + k2 - 1, w + k3 - 1]"
    using padded_shape [OF k, of d h w] sz by (simp add: shape_nn_ops_def i(1) nd ks)
  have conv: "shape_ConvLayer training (dp_conv m) [b, cl_ni a, d + k1 - 1, h + k2 - 1, w + k3 - 1]
               = norm_check training (cl_norm_type a)
                   [b, cl_nf a, (d - 1) div cl_stride a + 1, (h - 1) div cl_stride a + 1,
                    (w - 1) div cl_stride a + 1]"
    using i(4-8) k st tr sz
    by (simp add: shape_ConvLayer_def i(3) nd ks dil conv_out_size_plain Let_def)
  show ?thesis
    by (simp add: ConvLayerDynamicPadding_forward_def pad) (simp add: shape_nn_ops_def conv)
qed

section \<open>The structure of MBConvBlock\<close>

lemma ConvLayerDynamicPadding_init_value:
  assumes "0 < cl_groups a" and "cl_ni a mod cl_groups a = 0" and "cl_nf a mod cl_groups a = 0"
    and "0 \<le> cl_ni a" and "0 \<le> cl_nf a"
  shows "ConvLayerDynamicPadding_init a =
           Inr \<lparr>dp_padding = rev (padding_list (ks_tuple (cl_ks a) (cl_ndim a))), dp_value = 0,
                dp_conv = a\<lparr>cl_ks := KTuple (ks_tuple (cl_ks a) (cl_ndim a)),
                            cl_padding := Some 0\<rparr>\<rparr>"
  using assms by (simp add: ConvLayerDynamicPadding_init_def ConvLayer_init_def Let_def)

lemma MBConvBlock_init_Inr:
  assumes "MBConvBlock_init n_inp n_out kernel_size stride' se_ratio id_skip expand_ratio
             rate act_cls norm_type = Inr m"
  shows "mb_n_inp m = n_inp" and "mb_n_out m = n_out" and "mb_stride m = stride'"
    and "mb_id_skip m = id_skip" and "mb_expand_ratio m = expand_ratio"
    and "mb_has_se m = has_se_of se_ratio"
    and "expand_ratio \<noteq> 1 \<Longrightarrow> mb_expand_conv m \<noteq> None"
    and "mb_squeeze_expand m \<noteq> None \<longleftrightarrow> has_se_of se_ratio"
    and "DropConnect_init rate = Inr (mb_drop_conncet m)"
  using assms
  by (auto simp: MBConvBlock_init_def Let_def rbind_eq_Inr has_se_of_def
      split: if_splits option.splits)

lemma MBConvBlock_init_squeeze:
  assumes "MBConvBlock_init n_inp n_out kernel_size stride' (Some r) id_skip expand_ratio
             rate act_cls norm_type = Inr m"
    and "0 < r" and "r \<le> 1"
  shows "\<exists>squeeze expand. mb_squeeze_expand m = Some [squeeze, expand]
           \<and> cl_ni (dp_conv squeeze) = n_inp * expand_ratio
           \<and> cl_nf (dp_conv squeeze) = max 1 (py_int (of_int n_inp * r))
           \<and> cl_ni (dp_conv expand) = max 1 (py_int (of_int n_inp * r))
           \<and> cl_nf (dp_conv expand) = n_inp * expand_ratio"
proof -
  from assms obtain squeeze expand where
    sq: "ConvLayerDynamicPadding_init
           (ConvLayerDynamicPadding_defaults
              \<lparr>cl_ni := n_inp * expand_ratio, cl_nf := num_squeezed_channels n_inp r,
               cl_ks := KInt 1, cl_act_cls := act_cls, cl_norm_type := None\<rparr>) = Inr squeeze"
    and ex: "ConvLayerDynamicPadding_init
           (ConvLayerDynamicPadding_defaults
              \<lparr>cl_ni := num_squeezed_channels n_inp r, cl_nf := n_inp * expand_ratio,
               cl_ks := KInt 1, cl_act_cls := None, cl_norm_type := None\<rparr>) = Inr expand"
    and se: "mb_squeeze_expand m = Some [squeeze, expand]"
    by (auto simp: MBConvBlock_init_def Let_def rbind_eq_Inr has_se_of_def
        split: if_splits option.splits)
  show ?thesis
    using se ConvLayerDynamicPadding_init_Inr(3) [OF sq] ConvLayerDynamicPadding_init_Inr(3) [OF ex]
    by (simp add: num_squeezed_channels_def)
qed

lemma rbind_assoc: "rbind (rbind m f) g = rbind m (\<lambda>x. rbind (f x) g)"
  by (cases m) simp_all

lemma rbind_return [simp]: "rbind m Inr = m"
  by (cases m) simp_all

lemma rbind_if: "rbind (if c then a else b) f = (if c then rbind a f else rbind b f)"
  by simp

lemma MBConvBlock_forward_parts:
  assumes "mb_has_se m \<longleftrightarrow> mb_squeeze_expand m \<noteq> None"
  shows "MBConvBlock_forward T N training m x =
           rbind (depthwise_output N training m x)
             (\<lambda>y. rbind (case mb_squeeze_expand m of
                            None \<Rightarrow> Inr y
                          | Some se \<Rightarrow> squeeze_excite T N training se y)
                     (project_and_skip T N training m x))"
proof (cases "mb_squeeze_expand m")
  case None
  with assms have "\<not> mb_has_se m"
    by simp
  with None show ?thesis
    by (simp add: MBConvBlock_forward_def depthwise_output_def project_and_skip_def [abs_def]
        residual_def [abs_def] Let_def rbind_assoc cong: if_cong)
next
  case (Some se)
  with assms have "mb_has_se m"
    by simp
  with Some show ?thesis
    by (simp add: MBConvBlock_forward_def depthwise_output_def project_and_skip_def [abs_def]
        residual_def [abs_def] squeeze_excite_def Let_def rbind_assoc cong: if_cong)
qed

lemma has_se_of_iff: "has_se_of se_ratio \<longleftrightarrow> (\<exists>r. se_ratio = Some r \<and> 0 < r \<and> r \<le> 1)"
  by (cases se_ratio) (simp_all add: has_se_of_def)

lemma MBConvBlock_init_ok:
  assumes "0 \<le> n_inp" and "0 < n_inp * expand_ratio" and "0 \<le> n_out"
    and "0 \<le> rate" and "rate \<le> 1"
  shows "\<exists>m. MBConvBlock_init n_inp n_out kernel_size stride' se_ratio id_skip expand_ratio
             rate act_cls norm_type = Inr m"
proof -
  have sq: "0 \<le> num_squeezed_channels n_inp r" for r
    by (simp add: num_squeezed_channels_def)
  show ?thesis
    using assms sq
    by (cases se_ratio)
      (simp_all add: MBConvBlock_init_def Let_def has_se_of_def ConvLayerDynamicPadding_init_value
        ConvLayerDynamicPadding_defaults_def ConvLayer_defaults_def DropConnect_init_def)
qed

section \<open>Shapes through ASPP\<close>

lemma ConvLayer_init_value:
  assumes "cl_groups a = 1" and "0 \<le> cl_ni a" and "0 \<le> cl_nf a"
    and "cl_padding a = Some p \<or> (cl_padding a = None \<and> cl_ks a = KInt k \<and> \<not> cl_transpose a
           \<and> p = (k - 1) div 2)"
  shows "ConvLayer_init a = Inr (a\<lparr>cl_padding := Some p\<rparr>)"
  using assms by (auto simp: ConvLayer_init_def)

lemma norm_check_ok:
  assumes "\<not> (training \<and> nt \<in> {Some Batch, Some BatchZero} \<and> b * (d * h * w) = 1)"
    and "\<not> (nt \<in> {Some Instance, Some InstanceZero} \<and> d * h * w = 1)"
  shows "norm_check training nt [b, c, d, h, w] = Inr [b, c, d, h, w]"
  using assms by (auto simp: norm_check_def)

lemma norm_check_None [simp]: "norm_check training None s = Inr s"
  by (simp add: norm_check_def)

lemma shape_ConvLayer_same_size:
  assumes "cl_padding c = Some p" and "cl_ndim c = 3" and "cl_ks c = KInt k" and "1 \<le> k"
    and "cl_stride c = 1" and "1 \<le> cl_dilation c" and "2 * p = cl_dilation c * (k - 1)"
    and "\<not> cl_transpose c" and "cl_groups c = 1" and "0 \<le> cl_ni c" and "0 \<le> cl_nf c"
    and "1 \<le> d" and "1 \<le> h" and "1 \<le> w"
  shows "shape_ConvLayer training c [b, cl_ni c, d, h, w]
           = norm_check training (cl_norm_type c) [b, cl_nf c, d, h, w]"
proof -
  have p: "0 \<le> p"
    using assms(4,6,7) by (smt (verit) mult_nonneg_nonneg)
  have out: "conv_out_size False 1 p (cl_dilation c) k n = Inr n" if "1 \<le> n" for n
    using that assms(7) by (simp add: conv_out_size_def)
  show ?thesis
    using assms p by (simp add: shape_ConvLayer_def Let_def out)
qed


lemma pointwise_init:
  assumes "0 \<le> n_in" and "0 \<le> n_out"
  shows "ConvLayer_init (pointwise_args n_in n_out nt act)
           = Inr ((pointwise_args n_in n_out nt act)\<lparr>cl_padding := Some 0\<rparr>)"
  using assms
  by (intro ConvLayer_init_value [where k = 1])
    (simp_all add: pointwise_args_def ConvLayer_defaults_def)

lemma atrous_init:
  assumes "0 \<le> n_in" and "0 \<le> n_out"
  shows "ConvLayer_init (atrous_args n_in n_out nt act dil) = Inr (atrous_args n_in n_out nt act dil)"
proof -
  have "ConvLayer_init (atrous_args n_in n_out nt act dil)
          = Inr ((atrous_args n_in n_out nt act dil)\<lparr>cl_padding := Some dil\<rparr>)"
    using assms
    by (intro ConvLayer_init_value [where k = 3])
      (simp_all add: atrous_args_def ConvLayer_defaults_def)
  then show ?thesis
    by (simp add: atrous_args_def)
qed

lemma pointwise_shape:
  assumes "0 \<le> n_in" and "0 \<le> n_out" and "1 \<le> d" and "1 \<le> h" and "1 \<le> w"
  shows "shape_ConvLayer training ((pointwise_args n_in n_out nt act)\<lparr>cl_padding := Some 0\<rparr>)
             [b, n_in, d, h, w]
           = norm_check training nt [b, n_out, d, h, w]"
  using shape_ConvLayer_same_size
    [of "(pointwise_args n_in n_out nt act)\<lparr>cl_padding := Some 0\<rparr>" 0 1 d h w training b]
    assms
  by (simp add: pointwise_args_def ConvLayer_defaults_def)

lemma atrous_shape:
  assumes "0 \<le> n_in" and "0 \<le> n_out" and "1 \<le> dil" and "1 \<le> d" and "1 \<le> h" and "1 \<le> w"
  shows "shape_ConvLayer training (atrous_args n_in n_out nt act dil) [b, n_in, d, h, w]
           = norm_check training nt [b, n_out, d, h, w]"
  using shape_ConvLayer_same_size
    [of "atrous_args n_in n_out nt act dil" dil 3 d h w training b]
    assms
  by (simp add: atrous_args_def ConvLayer_defaults_def)

lemma ASPPPooling_shape:
  assumes "1 \<le> n_in" and "0 \<le> n_out" and "1 \<le> d" and "1 \<le> h" and "1 \<le> w"
  shows "ASPPPooling_forward shape_tensor_ops shape_nn_ops training
             \<lparr>ap_pool = 1, ap_conv = (pointwise_args n_in n_out None act)\<lparr>cl_padding := Some 0\<rparr>\<rparr>
             [b, n_in, d, h, w]
           = Inr [b, n_out, d, h, w]"
proof -
  have pool: "shape_adaptive_avg_pool3d [b, n_in, d, h, w] 1 = Inr [b, n_in, 1, 1, 1]"
    using assms by (simp add: shape_adaptive_avg_pool3d_def)
  have conv: "shape_ConvLayer training ((pointwise_args n_in n_out None act)\<lparr>cl_padding := Some 0\<rparr>)
                [b, n_in, 1, 1, 1] = Inr [b, n_out, 1, 1, 1]"
    using pointwise_shape [of n_in n_out 1 1 1 training None act b] assms by simp
  have interp: "shape_interpolate [b, n_out, 1, 1, 1] [d, h, w] Trilinear = Inr [b, n_out, d, h, w]"
    using assms by (simp add: shape_interpolate_def)
  show ?thesis
    by (simp add: ASPPPooling_forward_def shape_tensor_ops_def shape_nn_ops_def last3_def
        pool conv interp)
qed


lemma ASPP_init_value:
  assumes "0 \<le> n_in" and "0 \<le> n_out" and "0 \<le> ps" and "ps \<le> 1"
  shows "ASPP_init n_in dilations n_out nt act ps =
           Inr \<lparr>aspp_layers =
                  ConvBranch ((pointwise_args n_in n_out nt act)\<lparr>cl_padding := Some 0\<rparr>)
                  # map (\<lambda>dil. ConvBranch (atrous_args n_in n_out nt act dil)) dilations
                  @ [PoolBranch \<lparr>ap_pool = 1,
                       ap_conv = (pointwise_args n_in n_out None act)\<lparr>cl_padding := Some 0\<rparr>\<rparr>],
                aspp_project =
                  (pointwise_args (int (length dilations + 2) * n_out) n_out nt act)
                    \<lparr>cl_padding := Some 0\<rparr>,
                aspp_dropout = ps\<rparr>"
proof -
  have atrous: "map_res (\<lambda>dil. ConvLayer_init (atrous_args n_in n_out nt act dil)) dilations
                  = Inr (map (atrous_args n_in n_out nt act) dilations)"
    by (rule map_res_pure) (simp add: atrous_init assms)
  have proj: "ConvLayer_init (pointwise_args ((2 + int (length dilations)) * n_out) n_out nt act)
                = Inr ((pointwise_args ((2 + int (length dilations)) * n_out) n_out nt act)
                        \<lparr>cl_padding := Some 0\<rparr>)"
    using assms by (intro pointwise_init) simp_all
  show ?thesis
    using assms
    by (simp add: ASPP_init_def ASPPPooling_init_def pointwise_init atrous Let_def
        Dropout_init_def proj comp_def add.commute)
qed

lemma ASPP_init_Inr:
  assumes "ASPP_init n_in dilations n_out nt act ps = Inr m"
  shows "0 \<le> n_in" and "0 \<le> n_out" and "0 \<le> ps" and "ps \<le> 1"
proof -
  from assms obtain c where c: "ConvLayer_init (pointwise_args n_in n_out nt act) = Inr c"
    by (auto simp: ASPP_init_def rbind_eq_Inr)
  from ConvLayer_init_Inr(4,5) [OF c] show "0 \<le> n_in" and "0 \<le> n_out"
    by (simp_all add: pointwise_args_def)
  from assms obtain p where "Dropout_init ps = Inr p"
    by (auto simp: ASPP_init_def rbind_eq_Inr Let_def)
  then show "0 \<le> ps" and "ps \<le> 1"
    by (simp_all add: Dropout_init_def split: if_splits)
qed

lemma shape_cat_equal:
  assumes "ts \<noteq> []" and "\<And>t. t \<in> set ts \<Longrightarrow> t = [b, c, d, h, w]"
  shows "shape_cat ts 1 = Inr [b, int (length ts) * c, d, h, w]"
proof -
  from assms obtain s ss where ts: "ts = s # ss"
    by (cases ts) auto
  with assms(2) have s: "s = [b, c, d, h, w]" and ss: "\<And>t. t \<in> set ss \<Longrightarrow> t = [b, c, d, h, w]"
    by simp_all
  have "t ! 1 = c" if "t \<in> set ts" for t
    using assms(2) [OF that] by simp
  then have "map (\<lambda>t. t ! 1) ts = map (\<lambda>t. c) ts"
    by (intro map_cong) simp_all
  then have "sum_list (map (\<lambda>t. t ! 1) ts) = sum_list (map (\<lambda>t. c) ts)"
    by (simp only:)
  also have "\<dots> = int (length ts) * c"
    by (simp add: sum_list_triv)
  finally have "sum_list (map (\<lambda>t. t ! 1) ts) = int (length ts) * c" .
  moreover have "\<not> (\<exists>t \<in> set ss. t[1 := 0] \<noteq> s[1 := 0])"
    using ss s by auto
  ultimately show ?thesis
    using s ts by (simp add: shape_cat_def Let_def)
qed


section \<open>Shapes through the DeepLab decoder\<close>

lemma broadcast_rev_same: "broadcast_rev s s = Inr s"
  by (induction s) simp_all

lemma broadcast_shapes_same [simp]: "broadcast_shapes s s = Inr s"
  by (simp add: broadcast_shapes_def broadcast_rev_same)

lemma shape_tensor_ops_simps [simp]:
  "shape shape_tensor_ops s = s"
  "add_scalar shape_tensor_ops r s = Inr s"
  "div_scalar shape_tensor_ops s r = Inr s"
  "floor_inplace shape_tensor_ops s = Inr s"
  "sigmoid shape_tensor_ops s = Inr s"
  "mul shape_tensor_ops = broadcast_shapes"
  "add shape_tensor_ops = broadcast_shapes"
  by (simp_all add: shape_tensor_ops_def)

lemma shape_nn_ops_simps [simp]:
  "ConstantPad3d_forward shape_nn_ops = shape_pad"
  "ConvLayer_forward shape_nn_ops = shape_ConvLayer"
  "Conv3d_forward shape_nn_ops = shape_Conv3d"
  "adaptive_avg_pool3d shape_nn_ops = shape_adaptive_avg_pool3d"
  "Flatten_forward shape_nn_ops = shape_Flatten"
  "Dropout_forward shape_nn_ops training p s = Inr s"
  "Linear_forward shape_nn_ops = shape_Linear"
  "interpolate shape_nn_ops = shape_interpolate"
  "cat shape_nn_ops = shape_cat"
  by (simp_all add: shape_nn_ops_def)

lemma sum_from_same:
  assumes "\<And>t. t \<in> set ts \<Longrightarrow> t = s"
  shows "sum_from shape_tensor_ops s ts = Inr s"
  using assms
proof (induction ts)
  case Nil
  show ?case
    by simp
next
  case (Cons t ts)
  then have "t = s" and "sum_from shape_tensor_ops s ts = Inr s"
    by simp_all
  then show ?case
    by simp
qed

lemma py_sum_same:
  assumes "ts \<noteq> []" and "\<And>t. t \<in> set ts \<Longrightarrow> t = s"
  shows "py_sum shape_tensor_ops ts = Inr s"
proof -
  from assms obtain t rest where ts: "ts = t # rest"
    by (cases ts) auto
  with assms(2) have "t = s" and "\<And>u. u \<in> set rest \<Longrightarrow> u = s"
    by simp_all
  then show ?thesis
    using sum_from_same [of rest s] by (simp add: py_sum_def ts)
qed

lemma DeepLabDecoder_init_value:
  assumes "0 \<le> n_in" and "0 \<le> low" and "0 \<le> ps" and "ps \<le> 1"
  shows "DeepLabDecoder_init n_in low n_out nt act ps =
           Inr \<lparr>dd_low_lvl_conv =
                  ConvLayer_defaults\<lparr>cl_ndim := 3, cl_bias := Some False, cl_norm_type := nt,
                                      cl_act_cls := act, cl_ni := low, cl_nf := low div 2,
                                      cl_ks := KInt 1, cl_padding := Some 0\<rparr>,
                dd_last_conv =
                  [PlainConv (ConvLayer_defaults\<lparr>cl_ndim := 3, cl_bias := Some False,
                                 cl_norm_type := nt, cl_act_cls := act,
                                 cl_ni := n_in + low div 2, cl_nf := n_in, cl_ks := KInt 3,
                                 cl_stride := 1, cl_padding := Some 1\<rparr>),
                   Dropout ps,
                   PlainConv (ConvLayer_defaults\<lparr>cl_ndim := 3, cl_bias := Some False,
                                 cl_norm_type := nt, cl_act_cls := act,
                                 cl_ni := n_in, cl_nf := n_in, cl_ks := KInt 3,
                                 cl_stride := 1, cl_padding := Some 1\<rparr>),
                   Dropout (ps / 5),
                   Conv3d n_in n_out 1 1]\<rparr>"
proof -
  have "0 \<le> low div 2"
    using assms(2) by simp
  then show ?thesis
    using assms
    by (simp add: DeepLabDecoder_init_def Let_def ConvLayer_init_def ConvLayer_defaults_def
        Dropout_init_def)
qed

lemma DeepLabDecoder_init_Inr:
  assumes "DeepLabDecoder_init n_in low n_out nt act ps = Inr dec"
  shows "0 \<le> n_in" and "0 \<le> low" and "0 \<le> ps" and "ps \<le> 1"
proof -
  from assms obtain c1 c2 p where
    c1: "ConvLayer_init (ConvLayer_defaults\<lparr>cl_ndim := 3, cl_bias := Some False,
           cl_norm_type := nt, cl_act_cls := act, cl_ni := low, cl_nf := low div 2,
           cl_ks := KInt 1\<rparr>) = Inr c1"
    and c2: "ConvLayer_init (ConvLayer_defaults\<lparr>cl_ndim := 3, cl_bias := Some False,
           cl_norm_type := nt, cl_act_cls := act, cl_ni := n_in, cl_nf := n_in, cl_ks := KInt 3,
           cl_stride := 1, cl_padding := Some 1\<rparr>) = Inr c2"
    and p: "Dropout_init ps = Inr p"
    by (auto simp: DeepLabDecoder_init_def Let_def rbind_eq_Inr)
  from ConvLayer_init_Inr(4) [OF c1] show "0 \<le> low"
    by simp
  from ConvLayer_init_Inr(4) [OF c2] show "0 \<le> n_in"
    by simp
  from p show "0 \<le> ps" and "ps \<le> 1"
    by (simp_all add: Dropout_init_def split: if_splits)
qed


lemma last3_five [simp]: "last3 [b, c, d, h, w] = [d, h, w]"
  by (simp add: last3_def)

lemma shape_cat_two:
  "shape_cat [ [b, c1, d, h, w], [b, c2, d, h, w] ] 1 = Inr [b, c1 + c2, d, h, w]"
  by (simp add: shape_cat_def)

lemma shape_Conv3d_pointwise:
  assumes "0 \<le> n_in" and "0 \<le> n_out" and "1 \<le> d" and "1 \<le> h" and "1 \<le> w"
  shows "shape_Conv3d n_in n_out 1 1 [b, n_in, d, h, w] = Inr [b, n_out, d, h, w]"
proof -
  let ?c = "ConvLayer_defaults\<lparr>cl_ni := n_in, cl_nf := n_out, cl_ks := KInt 1,
                           cl_stride := 1, cl_padding := Some 0, cl_ndim := 3,
                           cl_norm_type := None, cl_act_cls := None\<rparr>"
  have "shape_ConvLayer False ?c [b, cl_ni ?c, d, h, w]
          = norm_check False (cl_norm_type ?c) [b, cl_nf ?c, d, h, w]"
    using assms by (intro shape_ConvLayer_same_size [where p = 0 and k = 1])
      (simp_all add: ConvLayer_defaults_def)
  then show ?thesis
    by (simp add: shape_Conv3d_def)
qed

lemma DeepLabDecoder_forward_shape:
  assumes init: "DeepLabDecoder_init n_in low n_out nt act ps = Inr dec"
    and st: "stored \<noteq> []" "\<And>s. s \<in> set stored \<Longrightarrow> s = [b, low, d, h, w]"
    and sz: "1 \<le> d" "1 \<le> h" "1 \<le> w" and sz': "1 \<le> d'" "1 \<le> h'" "1 \<le> w'"
    and n_out: "0 \<le> n_out"
    and bn: "\<not> (training \<and> nt \<in> {Some Batch, Some BatchZero} \<and> b * (d * h * w) = 1)"
    and inn: "\<not> (nt \<in> {Some Instance, Some InstanceZero} \<and> d * h * w = 1)"
  shows "DeepLabDecoder_forward shape_tensor_ops shape_nn_ops training dec stored
             [b, n_in, d', h', w']
           = Inr [b, n_out, d, h, w]"
proof -
  note pos = DeepLabDecoder_init_Inr [OF init]
  let ?base = "ConvLayer_defaults\<lparr>cl_ndim := 3, cl_bias := Some False, cl_norm_type := nt,
                                    cl_act_cls := act\<rparr>"
  let ?low = "?base\<lparr>cl_ni := low, cl_nf := low div 2, cl_ks := KInt 1, cl_padding := Some 0\<rparr>"
  let ?a = "?base\<lparr>cl_ni := n_in + low div 2, cl_nf := n_in, cl_ks := KInt 3,
                    cl_stride := 1, cl_padding := Some 1\<rparr>"
  let ?b = "?base\<lparr>cl_ni := n_in, cl_nf := n_in, cl_ks := KInt 3,
                    cl_stride := 1, cl_padding := Some 1\<rparr>"
  have dec: "dec = \<lparr>dd_low_lvl_conv = ?low,
                     dd_last_conv = [PlainConv ?a, Dropout ps, PlainConv ?b, Dropout (ps / 5),
                                     Conv3d n_in n_out 1 1]\<rparr>"
    using init DeepLabDecoder_init_value [OF pos, of n_out nt act] by simp
  have half: "0 \<le> low div 2"
    using pos(2) by simp
  have nc: "norm_check training nt [b, c, d, h, w] = Inr [b, c, d, h, w]" for c
    using bn inn by (rule norm_check_ok)
  have total: "py_sum shape_tensor_ops stored = Inr [b, low, d, h, w]"
    using st by (rule py_sum_same)
  have "shape_ConvLayer training ?low [b, cl_ni ?low, d, h, w]
          = norm_check training (cl_norm_type ?low) [b, cl_nf ?low, d, h, w]"
    using pos(2) half sz by (intro shape_ConvLayer_same_size [where p = 0 and k = 1])
      (simp_all add: ConvLayer_defaults_def)
  then have low: "shape_ConvLayer training ?low [b, low, d, h, w] = Inr [b, low div 2, d, h, w]"
    by (simp add: nc)
  have resize: "(if [d, h, w] \<noteq> [d', h', w']
                 then shape_interpolate [b, n_in, d', h', w'] [d, h, w] Nearest
                 else Inr [b, n_in, d', h', w']) = Inr [b, n_in, d, h, w]"
    using sz sz' by (auto simp: shape_interpolate_def)
  have "shape_ConvLayer training ?a [b, cl_ni ?a, d, h, w]
          = norm_check training (cl_norm_type ?a) [b, cl_nf ?a, d, h, w]"
    using pos(1) half sz by (intro shape_ConvLayer_same_size [where p = 1 and k = 3])
      (simp_all add: ConvLayer_defaults_def)
  then have a: "shape_ConvLayer training ?a [b, n_in + low div 2, d, h, w] = Inr [b, n_in, d, h, w]"
    by (simp add: nc)
  have "shape_ConvLayer training ?b [b, cl_ni ?b, d, h, w]
          = norm_check training (cl_norm_type ?b) [b, cl_nf ?b, d, h, w]"
    using pos(1) sz by (intro shape_ConvLayer_same_size [where p = 1 and k = 3])
      (simp_all add: ConvLayer_defaults_def)
  then have b: "shape_ConvLayer training ?b [b, n_in, d, h, w] = Inr [b, n_in, d, h, w]"
    by (simp add: nc)
  have c: "shape_Conv3d n_in n_out 1 1 [b, n_in, d, h, w] = Inr [b, n_out, d, h, w]"
    using pos(1) n_out sz by (rule shape_Conv3d_pointwise)
  have last: "Sequential_forward shape_tensor_ops shape_nn_ops training
                [PlainConv ?a, Dropout ps, PlainConv ?b, Dropout (ps / 5), Conv3d n_in n_out 1 1]
                [b, n_in + low div 2, d, h, w] = Inr [b, n_out, d, h, w]"
    by (simp add: a b c)
  show ?thesis
    unfolding DeepLabDecoder_forward_def dec DeepLabDecoder.simps total rbind_Inr
      shape_nn_ops_simps low shape_tensor_ops_simps last3_five Let_def resize shape_cat_two last
    by (rule refl)
qed


lemma DeepLabDecoder_init_low_lvl:
  assumes "DeepLabDecoder_init n_in low n_out nt act ps = Inr dec"
  shows "cl_ni (dd_low_lvl_conv dec) = low" and "cl_nf (dd_low_lvl_conv dec) = low div 2"
    and "cl_ks (dd_low_lvl_conv dec) = KInt 1" and "cl_ndim (dd_low_lvl_conv dec) = 3"
    and "\<exists>c rest. dd_last_conv dec = PlainConv c # rest \<and> cl_ni c = n_in + low div 2
           \<and> cl_ndim c = 3"
  using assms DeepLabDecoder_init_value [OF DeepLabDecoder_init_Inr [OF assms], of n_out nt act]
  by auto

lemma DynamicDeepLab_init_Inr:
  assumes "DynamicDeepLab_init F T N encoder n_out img_size act_cls norm_type = Inr m"
  shows "\<exists>sizes idx x stored low x1 x2.
          model_sizes F encoder img_size = Inr sizes
        \<and> py_index (get_sz_change_idxs F sizes) 1 = Inr idx
        \<and> hook_outputs_at F encoder idx = Inr (dl_sfs m)
        \<and> dummy_eval F encoder (dl_sfs m) img_size = Inr (x, stored)
        \<and> rbind (py_index sizes idx) (\<lambda>s. py_index s 1) = Inr low
        \<and> cl_ni (dd_low_lvl_conv (dl_decoder m)) = low
        \<and> cl_nf (dd_low_lvl_conv (dl_decoder m)) = low div 2
        \<and> cl_ks (dd_low_lvl_conv (dl_decoder m)) = KInt 1
        \<and> ASPP_forward T N False (dl_aspp m) x = Inr x1
        \<and> DeepLabDecoder_forward T N False (dl_decoder m) stored x1 = Inr x2"
proof -
  from assms obtain sizes idx sfs x stored n_in aspp x1 low decoder x2 where
    a: "model_sizes F encoder img_size = Inr sizes"
    and b: "py_index (get_sz_change_idxs F sizes) 1 = Inr idx"
    and c: "hook_outputs_at F encoder idx = Inr sfs"
    and d: "dummy_eval F encoder sfs img_size = Inr (x, stored)"
    and e: "ASPP_forward T N False aspp x = Inr x1"
    and f: "rbind (py_index sizes idx) (\<lambda>s. py_index s 1) = Inr low"
    and g: "DeepLabDecoder_init (n_in div 4) low n_out norm_type act_cls (1 / 2) = Inr decoder"
    and h: "DeepLabDecoder_forward T N False decoder stored x1 = Inr x2"
    and m: "m = \<lparr>dl_sfs = sfs, dl_encoder = encoder, dl_aspp = aspp, dl_decoder = decoder\<rparr>"
    by (auto simp: DynamicDeepLab_init_def Let_def rbind_eq_Inr split: prod.splits)
  from DeepLabDecoder_init_low_lvl(1-3) [OF g] a b c d e f h m show ?thesis
    by auto
qed

lemma DynamicDeepLab_init_IndexError:
  assumes "model_sizes F encoder img_size = Inr sizes"
    and "length (get_sz_change_idxs F sizes) < 2"
  shows "DynamicDeepLab_init F T N encoder n_out img_size act_cls norm_type = Inl IndexError"
  using assms by (simp add: DynamicDeepLab_init_def Let_def py_index_def)


section \<open>Shapes through EfficientNet\<close>

lemma get_n_channels_pos:
  assumes "0 < n" and "0 < w" and "0 < d"
  shows "\<exists>r. get_n_channels n (Some w) d md = Inr r \<and> 1 \<le> r"
proof -
  define x where "x = of_int n * w"
  define md' where "md' = (case md of None \<Rightarrow> d | Some m \<Rightarrow> if m = 0 then d else m)"
  define r0 where "r0 = max md' (py_int (x + of_int d / 2) div d * d)"
  define r where "r = (if of_int r0 < (9 / 10) * x then r0 + d else r0)"
  have xpos: "0 < x"
    using assms by (simp add: x_def)
  have val: "get_n_channels n (Some w) d md = Inr r"
    using assms by (simp add: get_n_channels_def r_def r0_def x_def md'_def Let_def)
  have "0 \<le> x + of_int d / 2"
    using xpos assms by simp
  then have "0 \<le> py_int (x + of_int d / 2)"
    by (simp add: py_int_def)
  then have "0 \<le> py_int (x + of_int d / 2) div d * d"
    using assms(3) by (simp add: pos_imp_zdiv_nonneg_iff)
  then have r0: "0 \<le> r0"
    by (simp add: r0_def max_def)
  have "1 \<le> r"
  proof (cases "of_int r0 < (9 / 10) * x")
    case True
    then show ?thesis
      using r0 assms(3) by (simp add: r_def)
  next
    case False
    then have "0 < (of_int r0 :: real)"
      using xpos by simp
    then have "0 < r0"
      by simp
    with False show ?thesis
      by (simp add: r_def)
  qed
  with val show ?thesis
    by blast
qed

lemma norm_check_batch:
  assumes "training \<longrightarrow> 2 \<le> b" and "1 \<le> b" and "1 \<le> d" and "1 \<le> h" and "1 \<le> w"
    and "nt \<notin> {Some Instance, Some InstanceZero}"
  shows "norm_check training nt [b, c, d, h, w] = Inr [b, c, d, h, w]"
proof -
  have "b * (d * h * w) \<noteq> 1" if "2 \<le> b"
  proof
    assume "b * (d * h * w) = 1"
    then have "b = 1 \<or> b = - 1"
      by (auto simp: zmult_eq_1_iff)
    with that show False
      by simp
  qed
  with assms show ?thesis
    by (intro norm_check_ok) auto
qed

lemma broadcast_shapes_gate:
  "broadcast_shapes [b, c, d, h, w] [b, c, 1, 1, 1] = Inr [b, c, d, h, w]"
  by (simp add: broadcast_shapes_def)

lemma broadcast_shapes_mask:
  "broadcast_shapes [b, c, d, h, w] [b, 1, 1, 1, 1] = Inr [b, c, d, h, w]"
  by (simp add: broadcast_shapes_def)

lemma DropConnect_forward_shape:
  assumes "0 \<le> b"
  shows "DropConnect_forward shape_tensor_ops training m [b, c, d, h, w] = Inr [b, c, d, h, w]"
  using assms
  by (simp add: DropConnect_forward_def random_tensor_def shape_tensor_ops_def
      broadcast_shapes_mask)


lemma MBConvBlock_init_layers:
  assumes "MBConvBlock_init n_inp n_out ks stride' (Some r) id_skip e rate act nt = Inr m"
    and "0 < r" and "r \<le> 1"
  shows "e \<noteq> 1 \<Longrightarrow> \<exists>c. mb_expand_conv m = Some c
           \<and> ConvLayerDynamicPadding_init
                 (ConvLayerDynamicPadding_defaults
                    \<lparr>cl_ni := n_inp, cl_nf := n_inp * e, cl_ks := KInt 1,
                     cl_norm_type := nt, cl_act_cls := act\<rparr>) = Inr c"
    and "e = 1 \<Longrightarrow> mb_expand_conv m = None"
    and "ConvLayerDynamicPadding_init
           (ConvLayerDynamicPadding_defaults
              \<lparr>cl_ni := n_inp * e, cl_nf := n_inp * e, cl_groups := n_inp * e,
               cl_ks := ks, cl_stride := stride',
               cl_norm_type := nt, cl_act_cls := act\<rparr>) = Inr (mb_depthwise_conv m)"
    and "\<exists>squeeze expand. mb_squeeze_expand m = Some [squeeze, expand]
           \<and> ConvLayerDynamicPadding_init
                 (ConvLayerDynamicPadding_defaults
                    \<lparr>cl_ni := n_inp * e, cl_nf := num_squeezed_channels n_inp r,
                     cl_ks := KInt 1, cl_act_cls := act, cl_norm_type := None\<rparr>) = Inr squeeze
           \<and> ConvLayerDynamicPadding_init
                 (ConvLayerDynamicPadding_defaults
                    \<lparr>cl_ni := num_squeezed_channels n_inp r, cl_nf := n_inp * e,
                     cl_ks := KInt 1, cl_act_cls := None, cl_norm_type := None\<rparr>) = Inr expand"
    and "ConvLayerDynamicPadding_init
           (ConvLayerDynamicPadding_defaults
              \<lparr>cl_ni := n_inp * e, cl_nf := n_out, cl_ks := KInt 1, cl_act_cls := None\<rparr>)
           = Inr (mb_project_conv m)"
  using assms
  by (auto simp: MBConvBlock_init_def Let_def rbind_eq_Inr has_se_of_def
      split: if_splits option.splits)


lemma padded_forward:
  assumes init: "ConvLayerDynamicPadding_init a = Inr c"
    and a: "cl_ndim a = 3" "cl_ks a = KInt k" "1 \<le> k" "1 \<le> cl_stride a" "cl_dilation a = 1"
      "\<not> cl_transpose a"
    and sz: "1 \<le> d" "1 \<le> h" "1 \<le> w"
    and nc: "\<And>d h w. 1 \<le> d \<Longrightarrow> 1 \<le> h \<Longrightarrow> 1 \<le> w \<Longrightarrow>
               norm_check training (cl_norm_type a) [b, cl_nf a, d, h, w] = Inr [b, cl_nf a, d, h, w]"
  shows "ConvLayerDynamicPadding_forward shape_nn_ops training c [b, cl_ni a, d, h, w]
           = Inr [b, cl_nf a, (d - 1) div cl_stride a + 1, (h - 1) div cl_stride a + 1,
                  (w - 1) div cl_stride a + 1]"
proof -
  have ks: "ks_tuple (cl_ks a) 3 = [k, k, k]"
    by (simp add: a(2))
  have pos: "1 \<le> (n - 1) div cl_stride a + 1" if "1 \<le> n" for n
    using that a(4) by (simp add: pos_imp_zdiv_nonneg_iff)
  have "ConvLayerDynamicPadding_forward shape_nn_ops training c [b, cl_ni a, d, h, w]
          = norm_check training (cl_norm_type a)
              [b, cl_nf a, (d - 1) div cl_stride a + 1, (h - 1) div cl_stride a + 1,
               (w - 1) div cl_stride a + 1]"
    using init a(1) ks a(3) a(3) a(3) a(4,5,6) sz
    by (rule ConvLayerDynamicPadding_forward_shape)
  also have "\<dots> = Inr [b, cl_nf a, (d - 1) div cl_stride a + 1, (h - 1) div cl_stride a + 1,
               (w - 1) div cl_stride a + 1]"
    using sz by (intro nc pos)
  finally show ?thesis .
qed

lemma defaults_fields [simp]:
  "cl_ndim ConvLayerDynamicPadding_defaults = 3"
  "cl_stride ConvLayerDynamicPadding_defaults = 1"
  "cl_dilation ConvLayerDynamicPadding_defaults = 1"
  "cl_transpose ConvLayerDynamicPadding_defaults = False"
  "cl_norm_type ConvLayerDynamicPadding_defaults = Some Batch"
  "cl_groups ConvLayerDynamicPadding_defaults = 1"
  "cl_ks ConvLayerDynamicPadding_defaults = KInt 3"
  by (simp_all add: ConvLayerDynamicPadding_defaults_def ConvLayer_defaults_def)

lemma MBConvBlock_forward_shape:
  assumes init: "MBConvBlock_init n_inp n_out (KInt ks) stride' (Some r) id_skip e rate act nt = Inr m"
    and r: "0 < r" "r \<le> 1"
    and ch: "1 \<le> n_inp" "1 \<le> e"
    and k: "1 \<le> ks" "1 \<le> stride'"
    and nt: "nt \<notin> {Some Instance, Some InstanceZero}"
    and b: "1 \<le> b" "training \<longrightarrow> 2 \<le> b"
    and sz: "1 \<le> d" "1 \<le> h" "1 \<le> w"
  shows "MBConvBlock_forward shape_tensor_ops shape_nn_ops training m [b, n_inp, d, h, w]
           = Inr [b, n_out, (d - 1) div stride' + 1, (h - 1) div stride' + 1,
                  (w - 1) div stride' + 1]"
proof -
  let ?C = "n_inp * e"
  let ?d = "(d - 1) div stride' + 1" and ?h = "(h - 1) div stride' + 1"
    and ?w = "(w - 1) div stride' + 1"
  let ?x = "[b, n_inp, d, h, w]"
  note i = MBConvBlock_init_Inr [OF init]
  note l = MBConvBlock_init_layers [OF init r]
  have C: "1 \<le> ?C"
    using mult_mono [of 1 n_inp 1 e] ch by simp
  have out: "1 \<le> ?d" "1 \<le> ?h" "1 \<le> ?w"
    using sz k(2) by (simp_all add: pos_imp_zdiv_nonneg_iff)
  have ncb: "norm_check training nt' [b, c, d0, h0, w0] = Inr [b, c, d0, h0, w0]"
    if "nt' \<notin> {Some Instance, Some InstanceZero}" "1 \<le> d0" "1 \<le> h0" "1 \<le> w0"
    for nt' c d0 h0 w0
    using b(2,1) that(2-4) that(1) by (rule norm_check_batch)
  have expand: "(if mb_expand_ratio m \<noteq> 1
            then (case mb_expand_conv m of
                    None \<Rightarrow> Inl (AttributeError ''expand_conv'')
                  | Some c \<Rightarrow> ConvLayerDynamicPadding_forward shape_nn_ops training c ?x)
            else Inr ?x) = Inr [b, ?C, d, h, w]"
  proof (cases "e = 1")
    case True
    then show ?thesis
      by (simp add: i(5))
  next
    case False
    from l(1) [OF False] obtain c where c: "mb_expand_conv m = Some c"
      and ci: "ConvLayerDynamicPadding_init
                 (ConvLayerDynamicPadding_defaults
                    \<lparr>cl_ni := n_inp, cl_nf := ?C, cl_ks := KInt 1,
                     cl_norm_type := nt, cl_act_cls := act\<rparr>) = Inr c"
      by blast
    have "ConvLayerDynamicPadding_forward shape_nn_ops training c ?x = Inr [b, ?C, d, h, w]"
      using padded_forward [OF ci, of 1 d h w training b] sz ncb [OF nt] by simp
    with False c show ?thesis
      by (simp add: i(5))
  qed
  have depthwise: "ConvLayerDynamicPadding_forward shape_nn_ops training (mb_depthwise_conv m)
                     [b, ?C, d, h, w] = Inr [b, ?C, ?d, ?h, ?w]"
    using padded_forward [OF l(3), of ks d h w training b] sz k ncb [OF nt] by simp
  have dw: "depthwise_output shape_nn_ops training m ?x = Inr [b, ?C, ?d, ?h, ?w]"
    by (simp add: depthwise_output_def expand depthwise)
  from l(4) obtain squeeze expand' where se: "mb_squeeze_expand m = Some [squeeze, expand']"
    and sq: "ConvLayerDynamicPadding_init
                 (ConvLayerDynamicPadding_defaults
                    \<lparr>cl_ni := ?C, cl_nf := num_squeezed_channels n_inp r,
                     cl_ks := KInt 1, cl_act_cls := act, cl_norm_type := None\<rparr>) = Inr squeeze"
    and ex: "ConvLayerDynamicPadding_init
                 (ConvLayerDynamicPadding_defaults
                    \<lparr>cl_ni := num_squeezed_channels n_inp r, cl_nf := ?C,
                     cl_ks := KInt 1, cl_act_cls := None, cl_norm_type := None\<rparr>) = Inr expand'"
    by blast
  have pool: "shape_adaptive_avg_pool3d [b, ?C, ?d, ?h, ?w] 1 = Inr [b, ?C, 1, 1, 1]"
    using C out by (simp add: shape_adaptive_avg_pool3d_def)
  have sqf: "ConvLayerDynamicPadding_forward shape_nn_ops training squeeze [b, ?C, 1, 1, 1]
               = Inr [b, num_squeezed_channels n_inp r, 1, 1, 1]"
    using padded_forward [OF sq, of 1 1 1 1 training b] by simp
  have exf: "ConvLayerDynamicPadding_forward shape_nn_ops training expand'
               [b, num_squeezed_channels n_inp r, 1, 1, 1] = Inr [b, ?C, 1, 1, 1]"
    using padded_forward [OF ex, of 1 1 1 1 training b] by simp
  have sef: "squeeze_excite shape_tensor_ops shape_nn_ops training [squeeze, expand']
               [b, ?C, ?d, ?h, ?w] = Inr [b, ?C, ?d, ?h, ?w]"
    by (simp add: squeeze_excite_def pool sqf exf broadcast_shapes_gate)
  have project: "ConvLayerDynamicPadding_forward shape_nn_ops training (mb_project_conv m)
                   [b, ?C, ?d, ?h, ?w] = Inr [b, n_out, ?d, ?h, ?w]"
  proof -
    have "(x - 1) div 1 + 1 = x" for x :: int
      by simp
    then show ?thesis
      using padded_forward [OF l(5), of 1 ?d ?h ?w training b] out ncb by simp
  qed
  have skip: "(if mb_id_skip m \<and> mb_stride m = 1 \<and> mb_n_inp m = mb_n_out m
               then residual shape_tensor_ops training m ?x [b, n_out, ?d, ?h, ?w]
               else Inr [b, n_out, ?d, ?h, ?w]) = Inr [b, n_out, ?d, ?h, ?w]"
  proof (cases "mb_id_skip m \<and> mb_stride m = 1 \<and> mb_n_inp m = mb_n_out m")
    case True
    then have "stride' = 1" and "n_inp = n_out"
      by (simp_all add: i(1-3))
    then have same: "[b, n_out, ?d, ?h, ?w] = ?x"
      by simp
    have res: "residual shape_tensor_ops training m ?x ?x = Inr ?x"
      using b(1) by (simp add: residual_def DropConnect_forward_shape)
    show ?thesis
      by (simp only: same res if_cancel)
  next
    case False
    show ?thesis
      by (simp only: False if_False)
  qed
  have ps: "project_and_skip shape_tensor_ops shape_nn_ops training m ?x [b, ?C, ?d, ?h, ?w]
              = Inr [b, n_out, ?d, ?h, ?w]"
    by (simp only: project_and_skip_def project rbind_Inr skip)
  have "MBConvBlock_forward shape_tensor_ops shape_nn_ops training m ?x =
           rbind (depthwise_output shape_nn_ops training m ?x)
             (\<lambda>y. rbind (case mb_squeeze_expand m of
                            None \<Rightarrow> Inr y
                          | Some se \<Rightarrow> squeeze_excite shape_tensor_ops shape_nn_ops training se y)
                     (project_and_skip shape_tensor_ops shape_nn_ops training m ?x))"
    by (rule MBConvBlock_forward_parts) (simp only: i(6,8))
  then show ?thesis
    by (simp add: dw se sef ps)
qed


lemma padded_conv_3d_init:
  assumes "ConvLayerDynamicPadding_init a = Inr c" and "cl_ndim a = 3" and "cl_ks a = KInt k"
  shows "padded_conv_3d c"
  using ConvLayerDynamicPadding_init_Inr(1,3) [OF assms(1)] assms(2,3)
  by (simp add: padded_conv_3d_def padding_list_def)

lemma MBConvBlock_3d_init:
  assumes init: "MBConvBlock_init n_inp n_out (KInt ks) stride' (Some r) id_skip e rate act nt = Inr m"
    and r: "0 < r" "r \<le> 1"
  shows "MBConvBlock_3d m"
proof -
  note l = MBConvBlock_init_layers [OF init r]
  have ex: "case mb_expand_conv m of None \<Rightarrow> True | Some c \<Rightarrow> padded_conv_3d c"
  proof (cases "e = 1")
    case True
    with l(2) show ?thesis
      by simp
  next
    case False
    from l(1) [OF False] obtain c where c: "mb_expand_conv m = Some c"
      and ci: "ConvLayerDynamicPadding_init
                 (ConvLayerDynamicPadding_defaults
                    \<lparr>cl_ni := n_inp, cl_nf := n_inp * e, cl_ks := KInt 1,
                     cl_norm_type := nt, cl_act_cls := act\<rparr>) = Inr c"
      by blast
    have "padded_conv_3d c"
      using ci by (rule padded_conv_3d_init [where k = 1]) simp_all
    with c show ?thesis
      by simp
  qed
  have dw: "padded_conv_3d (mb_depthwise_conv m)"
    using l(3) by (rule padded_conv_3d_init [where k = ks]) simp_all
  from l(4) obtain squeeze expand' where sq: "mb_squeeze_expand m = Some [squeeze, expand']"
    and sqi: "ConvLayerDynamicPadding_init
                 (ConvLayerDynamicPadding_defaults
                    \<lparr>cl_ni := n_inp * e, cl_nf := num_squeezed_channels n_inp r,
                     cl_ks := KInt 1, cl_act_cls := act, cl_norm_type := None\<rparr>) = Inr squeeze"
    and exi: "ConvLayerDynamicPadding_init
                 (ConvLayerDynamicPadding_defaults
                    \<lparr>cl_ni := num_squeezed_channels n_inp r, cl_nf := n_inp * e,
                     cl_ks := KInt 1, cl_act_cls := None, cl_norm_type := None\<rparr>) = Inr expand'"
    by blast
  have "padded_conv_3d squeeze"
    using sqi by (rule padded_conv_3d_init [where k = 1]) simp_all
  moreover have "padded_conv_3d expand'"
    using exi by (rule padded_conv_3d_init [where k = 1]) simp_all
  ultimately have se: "case mb_squeeze_expand m of None \<Rightarrow> True
                      | Some se \<Rightarrow> list_all padded_conv_3d se"
    by (simp add: sq)
  have pr: "padded_conv_3d (mb_project_conv m)"
    using l(5) by (rule padded_conv_3d_init [where k = 1]) simp_all
  from ex dw se pr show ?thesis
    by (simp add: MBConvBlock_3d_def)
qed

lemma stack_blocks_shape:
  assumes r: "0 < r" "r \<le> 1" and e: "1 \<le> e" and ks: "1 \<le> ks"
    and nt: "nt \<notin> {Some Instance, Some InstanceZero}"
    and rate: "0 \<le> rate" "rate \<le> 1" and nf: "1 \<le> nf"
  shows "1 \<le> ni \<Longrightarrow> 1 \<le> stride' \<Longrightarrow>
         \<exists>bs. stack_blocks k ni nf ks stride' r id_skip e rate act nt = Inr bs
            \<and> (\<forall>m \<in> set bs. module_3d m)
            \<and> (\<forall>b d h w training.
                  1 \<le> b \<and> (training \<longrightarrow> 2 \<le> b) \<and> 1 \<le> d \<and> 1 \<le> h \<and> 1 \<le> w \<longrightarrow>
                  (\<exists>d' h' w'. 1 \<le> d' \<and> 1 \<le> h' \<and> 1 \<le> w'
                     \<and> Sequential_forward shape_tensor_ops shape_nn_ops training bs
                           [b, ni, d, h, w]
                         = Inr [b, (if k = 0 then ni else nf), d', h', w']))"
proof (induction k arbitrary: ni stride')
  case 0
  show ?case
    by auto
next
  case (Suc k)
  have "0 < ni * e"
    using Suc.prems(1) e by simp
  then obtain m where m: "MBConvBlock_init ni nf (KInt ks) stride' (Some r) id_skip e rate act nt
      = Inr m"
    using MBConvBlock_init_ok [of ni e nf rate "KInt ks" stride' "Some r" id_skip act nt]
      Suc.prems(1) nf rate by auto
  from Suc.IH [OF nf, of 1] obtain bs where
    bs: "stack_blocks k nf nf ks 1 r id_skip e rate act nt = Inr bs"
    and bs3: "\<forall>m \<in> set bs. module_3d m"
    and bsf: "\<And>b d h w training.
                1 \<le> b \<Longrightarrow> training \<longrightarrow> 2 \<le> b \<Longrightarrow> 1 \<le> d \<Longrightarrow> 1 \<le> h \<Longrightarrow> 1 \<le> w \<Longrightarrow>
                \<exists>d' h' w'. 1 \<le> d' \<and> 1 \<le> h' \<and> 1 \<le> w'
                   \<and> Sequential_forward shape_tensor_ops shape_nn_ops training bs
                         [b, nf, d, h, w]
                       = Inr [b, (if k = 0 then nf else nf), d', h', w']"
    by auto
  have val: "stack_blocks (Suc k) ni nf ks stride' r id_skip e rate act nt = Inr (MBConv m # bs)"
    by (simp add: m bs)
  have m3: "module_3d (MBConv m)"
    using MBConvBlock_3d_init [OF m r] by simp
  have fwd: "\<exists>d' h' w'. 1 \<le> d' \<and> 1 \<le> h' \<and> 1 \<le> w'
               \<and> Sequential_forward shape_tensor_ops shape_nn_ops training (MBConv m # bs)
                     [b, ni, d, h, w]
                   = Inr [b, nf, d', h', w']"
    if h: "1 \<le> b" "training \<longrightarrow> 2 \<le> b" "1 \<le> d" "1 \<le> h" "1 \<le> w"
    for b d h w training
  proof -
    let ?d = "(d - 1) div stride' + 1" and ?h = "(h - 1) div stride' + 1"
      and ?w = "(w - 1) div stride' + 1"
    have first: "MBConvBlock_forward shape_tensor_ops shape_nn_ops training m [b, ni, d, h, w]
                   = Inr [b, nf, ?d, ?h, ?w]"
      using m r Suc.prems(1) e ks Suc.prems(2) nt h
      by (rule MBConvBlock_forward_shape)
    have out: "1 \<le> ?d" "1 \<le> ?h" "1 \<le> ?w"
      using h(3-5) Suc.prems(2) by (simp_all add: pos_imp_zdiv_nonneg_iff)
    from bsf [OF h(1,2) out] obtain d' h' w' where "1 \<le> d'" "1 \<le> h'" "1 \<le> w'"
      and "Sequential_forward shape_tensor_ops shape_nn_ops training bs [b, nf, ?d, ?h, ?w]
             = Inr [b, nf, d', h', w']"
      by auto
    with first show ?thesis
      by auto
  qed
  have all3: "\<forall>a \<in> set (MBConv m # bs). module_3d a"
    using m3 bs3 by simp
  have "(if Suc k = 0 then ni else nf) = nf"
    by simp
  then show ?case
    using val all3 fwd by (intro exI [of _ "MBConv m # bs"]) (simp only:, blast)
qed


lemma scaled_repeat_pos:
  assumes "1 \<le> n" and "case dc of None \<Rightarrow> True | Some c \<Rightarrow> 0 \<le> c"
  shows "1 \<le> scaled_repeat dc n"
proof (cases dc)
  case None
  with assms show ?thesis
    by (simp add: scaled_repeat_def)
next
  case (Some c)
  show ?thesis
  proof (cases "c = 0")
    case True
    with Some assms show ?thesis
      by (simp add: scaled_repeat_def)
  next
    case False
    with Some assms have "0 < c * of_int n"
      by simp
    then have "0 < \<lceil>c * of_int n\<rceil>"
      by (simp add: ceiling_less_iff)
    with Some False show ?thesis
      by (simp add: scaled_repeat_def)
  qed
qed

lemma build_stage_shape:
  assumes w: "0 < w" and dd: "0 < dd"
    and dc: "case dc of None \<Rightarrow> True | Some c \<Rightarrow> 0 \<le> c"
    and rate: "0 \<le> rate" "rate \<le> 1"
    and nt: "nt \<notin> {Some Instance, Some InstanceZero}"
    and row: "1 \<le> row_num_repeat row" "1 \<le> row_kernel_size row" "1 \<le> row_stride row"
      "1 \<le> row_expand_ratio row" "1 \<le> row_in_channels row" "1 \<le> row_out_channels row"
      "0 < row_se_ratio row" "row_se_ratio row \<le> 1"
    and idx: "idx \<le> length block_arguments"
  shows "\<exists>stage ni nf.
           get_n_channels (row_in_channels row) (Some w) dd md = Inr ni
         \<and> get_n_channels (row_out_channels row) (Some w) dd md = Inr nf
         \<and> 1 \<le> nf
         \<and> build_stage (Some w) dc rate dd md act nt idx row = Inr (stage, nf)
         \<and> module_3d stage
         \<and> (\<forall>b d h w training.
               1 \<le> b \<and> (training \<longrightarrow> 2 \<le> b) \<and> 1 \<le> d \<and> 1 \<le> h \<and> 1 \<le> w \<longrightarrow>
               (\<exists>d' h' w'. 1 \<le> d' \<and> 1 \<le> h' \<and> 1 \<le> w'
                  \<and> module_forward shape_tensor_ops shape_nn_ops training stage [b, ni, d, h, w]
                      = Inr [b, nf, d', h', w']))"
proof -
  from get_n_channels_pos [of "row_in_channels row" w dd md] row(5) w dd
  obtain ni where ni: "get_n_channels (row_in_channels row) (Some w) dd md = Inr ni" "1 \<le> ni"
    by auto
  from get_n_channels_pos [of "row_out_channels row" w dd md] row(6) w dd
  obtain nf where nf: "get_n_channels (row_out_channels row) (Some w) dd md = Inr nf" "1 \<le> nf"
    by auto
  let ?k = "nat (scaled_repeat dc (row_num_repeat row))"
  let ?rate = "rate * real idx / real (length block_arguments)"
  have len: "length block_arguments = 7"
    by (simp add: block_arguments_def)
  have k: "?k \<noteq> 0"
    using scaled_repeat_pos [OF row(1) dc] by simp
  have r0: "0 \<le> ?rate"
    using rate(1) by simp
  have "rate * real idx \<le> 1 * real (length block_arguments)"
    using rate idx by (intro mult_mono) simp_all
  then have r1: "?rate \<le> 1"
    by (simp add: len)
  from stack_blocks_shape [OF row(7,8) row(4) row(2) nt r0 r1 nf(2) ni(2) row(3),
      of ?k "row_id_skip row" act]
  obtain bs where bs: "stack_blocks ?k ni nf (row_kernel_size row) (row_stride row)
        (row_se_ratio row) (row_id_skip row) (row_expand_ratio row) ?rate act nt = Inr bs"
    and bs3: "\<forall>m \<in> set bs. module_3d m"
    and bsf: "\<forall>b d h w training.
                  1 \<le> b \<and> (training \<longrightarrow> 2 \<le> b) \<and> 1 \<le> d \<and> 1 \<le> h \<and> 1 \<le> w \<longrightarrow>
                  (\<exists>d' h' w'. 1 \<le> d' \<and> 1 \<le> h' \<and> 1 \<le> w'
                     \<and> Sequential_forward shape_tensor_ops shape_nn_ops training bs
                           [b, ni, d, h, w]
                         = Inr [b, (if ?k = 0 then ni else nf), d', h', w'])"
    by blast
  have val: "build_stage (Some w) dc rate dd md act nt idx row = Inr (Sequential bs, nf)"
    by (simp add: build_stage_def ni(1) nf(1) bs)
  have s3: "module_3d (Sequential bs)"
    using bs3 by simp
  have fwd: "\<forall>b d h w training.
               1 \<le> b \<and> (training \<longrightarrow> 2 \<le> b) \<and> 1 \<le> d \<and> 1 \<le> h \<and> 1 \<le> w \<longrightarrow>
               (\<exists>d' h' w'. 1 \<le> d' \<and> 1 \<le> h' \<and> 1 \<le> w'
                  \<and> module_forward shape_tensor_ops shape_nn_ops training (Sequential bs)
                        [b, ni, d, h, w]
                      = Inr [b, nf, d', h', w'])"
    using bsf k by (simp only: module_forward.simps if_False)
  from ni(1) nf val s3 fwd show ?thesis
    by blast
qed

lemma Sequential_forward_append:
  "Sequential_forward T N training (xs @ ys) x
     = rbind (Sequential_forward T N training xs x) (Sequential_forward T N training ys)"
  by (induction xs arbitrary: x) (simp_all split: sum.splits)


lemma build_body_shape:
  assumes wc: "0 < wc" and dd: "0 < dd"
    and dc: "case dc of None \<Rightarrow> True | Some c \<Rightarrow> 0 \<le> c"
    and rate: "0 \<le> rate" "rate \<le> 1"
    and nt: "nt \<notin> {Some Instance, Some InstanceZero}"
  shows "(\<forall>row \<in> set rows.
            1 \<le> row_num_repeat row \<and> 1 \<le> row_kernel_size row \<and> 1 \<le> row_stride row
          \<and> 1 \<le> row_expand_ratio row \<and> 1 \<le> row_in_channels row \<and> 1 \<le> row_out_channels row
          \<and> 0 < row_se_ratio row \<and> row_se_ratio row \<le> 1) \<Longrightarrow>
         successively (\<lambda>r r'. row_out_channels r = row_in_channels r') rows \<Longrightarrow>
         idx + length rows \<le> length block_arguments \<Longrightarrow>
         \<exists>stages final.
             build_body (Some wc) dc rate dd md act nt idx rows = Inr (stages, final)
           \<and> (\<forall>s \<in> set stages. module_3d s)
           \<and> (rows = [] \<longrightarrow> final = None)
           \<and> (rows \<noteq> [] \<longrightarrow>
                (\<exists>n. final = Some n \<and> 1 \<le> n
                   \<and> get_n_channels (row_out_channels (last rows)) (Some wc) dd md = Inr n))
           \<and> (\<forall>c b d h w training.
                 (rows \<noteq> [] \<longrightarrow>
                    get_n_channels (row_in_channels (hd rows)) (Some wc) dd md = Inr c)
                 \<and> 1 \<le> b \<and> (training \<longrightarrow> 2 \<le> b) \<and> 1 \<le> d \<and> 1 \<le> h \<and> 1 \<le> w \<longrightarrow>
                 (\<exists>d' h' w'. 1 \<le> d' \<and> 1 \<le> h' \<and> 1 \<le> w'
                    \<and> Sequential_forward shape_tensor_ops shape_nn_ops training stages
                          [b, c, d, h, w]
                        = Inr [b, (case final of None \<Rightarrow> c | Some n \<Rightarrow> n), d', h', w']))"
proof (induction rows arbitrary: idx)
  case Nil
  have "Sequential_forward shape_tensor_ops shape_nn_ops training [] [b, c, d, h, w]
          = Inr [b, c, d, h, w]" for b c d h w training
    by simp
  then show ?case
    by (intro exI [of _ "[]"] exI [of _ None]) auto
next
  case (Cons row rows)
  from Cons.prems(1) have row: "1 \<le> row_num_repeat row" "1 \<le> row_kernel_size row"
    "1 \<le> row_stride row" "1 \<le> row_expand_ratio row" "1 \<le> row_in_channels row"
    "1 \<le> row_out_channels row" "0 < row_se_ratio row" "row_se_ratio row \<le> 1"
    by simp_all
  from Cons.prems(3) have idx: "idx \<le> length block_arguments"
    and idx': "Suc idx + length rows \<le> length block_arguments"
    by simp_all
  from build_stage_shape [OF wc dd dc rate nt row idx, of md act]
  obtain stage ni nf where stage:
    "get_n_channels (row_in_channels row) (Some wc) dd md = Inr ni
         \<and> get_n_channels (row_out_channels row) (Some wc) dd md = Inr nf
         \<and> 1 \<le> nf
         \<and> build_stage (Some wc) dc rate dd md act nt idx row = Inr (stage, nf)
         \<and> module_3d stage
         \<and> (\<forall>b d h w training.
               1 \<le> b \<and> (training \<longrightarrow> 2 \<le> b) \<and> 1 \<le> d \<and> 1 \<le> h \<and> 1 \<le> w \<longrightarrow>
               (\<exists>d' h' w'. 1 \<le> d' \<and> 1 \<le> h' \<and> 1 \<le> w'
                  \<and> module_forward shape_tensor_ops shape_nn_ops training stage [b, ni, d, h, w]
                      = Inr [b, nf, d', h', w']))"
    by (elim exE)
  note ni = stage [THEN conjunct1]
    and nf = stage [THEN conjunct2, THEN conjunct1]
    and nf1 = stage [THEN conjunct2, THEN conjunct2, THEN conjunct1]
    and st = stage [THEN conjunct2, THEN conjunct2, THEN conjunct2, THEN conjunct1]
    and st3 = stage [THEN conjunct2, THEN conjunct2, THEN conjunct2, THEN conjunct2,
        THEN conjunct1]
    and stf = stage [THEN conjunct2, THEN conjunct2, THEN conjunct2, THEN conjunct2,
        THEN conjunct2, rule_format]
  have valid: "\<forall>row \<in> set rows.
            1 \<le> row_num_repeat row \<and> 1 \<le> row_kernel_size row \<and> 1 \<le> row_stride row
          \<and> 1 \<le> row_expand_ratio row \<and> 1 \<le> row_in_channels row \<and> 1 \<le> row_out_channels row
          \<and> 0 < row_se_ratio row \<and> row_se_ratio row \<le> 1"
    using Cons.prems(1) by simp
  have chain: "successively (\<lambda>r r'. row_out_channels r = row_in_channels r') rows"
    and link: "rows \<noteq> [] \<Longrightarrow> row_out_channels row = row_in_channels (hd rows)"
    using Cons.prems(2) by (auto simp: successively_Cons)
  from Cons.IH [OF valid chain idx']
  obtain stages final' where body:
    "build_body (Some wc) dc rate dd md act nt (Suc idx) rows = Inr (stages, final')
           \<and> (\<forall>s \<in> set stages. module_3d s)
           \<and> (rows = [] \<longrightarrow> final' = None)
           \<and> (rows \<noteq> [] \<longrightarrow>
                (\<exists>n. final' = Some n \<and> 1 \<le> n
                   \<and> get_n_channels (row_out_channels (last rows)) (Some wc) dd md = Inr n))
           \<and> (\<forall>c b d h w training.
                 (rows \<noteq> [] \<longrightarrow>
                    get_n_channels (row_in_channels (hd rows)) (Some wc) dd md = Inr c)
                 \<and> 1 \<le> b \<and> (training \<longrightarrow> 2 \<le> b) \<and> 1 \<le> d \<and> 1 \<le> h \<and> 1 \<le> w \<longrightarrow>
                 (\<exists>d' h' w'. 1 \<le> d' \<and> 1 \<le> h' \<and> 1 \<le> w'
                    \<and> Sequential_forward shape_tensor_ops shape_nn_ops training stages
                          [b, c, d, h, w]
                        = Inr [b, (case final' of None \<Rightarrow> c | Some n \<Rightarrow> n), d', h', w']))"
    by (elim exE)
  note bb = body [THEN conjunct1]
    and bb3 = body [THEN conjunct2, THEN conjunct1]
    and fin_nil = body [THEN conjunct2, THEN conjunct2, THEN conjunct1]
    and fin_cons = body [THEN conjunct2, THEN conjunct2, THEN conjunct2, THEN conjunct1]
    and bbf = body [THEN conjunct2, THEN conjunct2, THEN conjunct2, THEN conjunct2, rule_format]
  define final where "final = (case final' of None \<Rightarrow> Some nf | Some n \<Rightarrow> Some n)"
  have val: "build_body (Some wc) dc rate dd md act nt idx (row # rows)
               = Inr (stage # stages, final)"
    by (simp add: st bb final_def)
  have all3: "\<forall>s \<in> set (stage # stages). module_3d s"
    using st3 bb3 by simp
  have fin: "\<exists>n. final = Some n \<and> 1 \<le> n
               \<and> get_n_channels (row_out_channels (last (row # rows))) (Some wc) dd md = Inr n"
  proof (cases "rows = []")
    case True
    with fin_nil nf nf1 show ?thesis
      by (simp add: final_def)
  next
    case False
    with fin_cons show ?thesis
      by (auto simp: final_def)
  qed
  have out: "(case final of None \<Rightarrow> c | Some n \<Rightarrow> n)
               = (case final' of None \<Rightarrow> nf | Some n \<Rightarrow> n)" for c
    by (cases final') (simp_all add: final_def)
  have fwd: "\<exists>d' h' w'. 1 \<le> d' \<and> 1 \<le> h' \<and> 1 \<le> w'
               \<and> Sequential_forward shape_tensor_ops shape_nn_ops training (stage # stages)
                     [b, c, d, h, w]
                   = Inr [b, (case final of None \<Rightarrow> c | Some n \<Rightarrow> n), d', h', w']"
    if c: "row # rows \<noteq> [] \<longrightarrow>
             get_n_channels (row_in_channels (hd (row # rows))) (Some wc) dd md = Inr c"
      and h: "1 \<le> b" "training \<longrightarrow> 2 \<le> b" "1 \<le> d" "1 \<le> h" "1 \<le> w"
    for c b d h w training
  proof -
    from c ni have cn: "c = ni"
      by simp
    have "\<exists>d' h' w'. 1 \<le> d' \<and> 1 \<le> h' \<and> 1 \<le> w'
            \<and> module_forward shape_tensor_ops shape_nn_ops training stage [b, ni, d, h, w]
                = Inr [b, nf, d', h', w']"
      using h by (intro stf conjI)
    then obtain d1 h1 w1 where o1: "1 \<le> d1" "1 \<le> h1" "1 \<le> w1"
      and f1: "module_forward shape_tensor_ops shape_nn_ops training stage [b, ni, d, h, w]
                 = Inr [b, nf, d1, h1, w1]"
      by (elim exE conjE)
    have lk: "rows \<noteq> [] \<longrightarrow> get_n_channels (row_in_channels (hd rows)) (Some wc) dd md = Inr nf"
      using link nf by auto
    have "\<exists>d' h' w'. 1 \<le> d' \<and> 1 \<le> h' \<and> 1 \<le> w'
            \<and> Sequential_forward shape_tensor_ops shape_nn_ops training stages [b, nf, d1, h1, w1]
                = Inr [b, (case final' of None \<Rightarrow> nf | Some n \<Rightarrow> n), d', h', w']"
      using lk h(1,2) o1 by (intro bbf conjI)
    then obtain d' h' w' where o2: "1 \<le> d'" "1 \<le> h'" "1 \<le> w'"
      and f2: "Sequential_forward shape_tensor_ops shape_nn_ops training stages [b, nf, d1, h1, w1]
             = Inr [b, (case final' of None \<Rightarrow> nf | Some n \<Rightarrow> n), d', h', w']"
      by (elim exE conjE)
    have "Sequential_forward shape_tensor_ops shape_nn_ops training (stage # stages)
            [b, c, d, h, w]
          = Inr [b, (case final of None \<Rightarrow> c | Some n \<Rightarrow> n), d', h', w']"
      by (simp add: cn f1 f2 out)
    with o2 show ?thesis
      by (intro exI conjI)
  qed
  show ?case
  proof (intro exI [of _ "stage # stages"] exI [of _ final] conjI allI impI)
    show "build_body (Some wc) dc rate dd md act nt idx (row # rows)
            = Inr (stage # stages, final)"
      by (rule val)
    show "\<forall>s \<in> set (stage # stages). module_3d s"
      by (rule all3)
    show "final = None" if "row # rows = []"
      using that by simp
    show "\<exists>n. final = Some n \<and> 1 \<le> n
               \<and> get_n_channels (row_out_channels (last (row # rows))) (Some wc) dd md = Inr n"
      by (rule fin)
    show "\<exists>d' h' w'. 1 \<le> d' \<and> 1 \<le> h' \<and> 1 \<le> w'
               \<and> Sequential_forward shape_tensor_ops shape_nn_ops training (stage # stages)
                     [b, c, d, h, w]
                   = Inr [b, (case final of None \<Rightarrow> c | Some n \<Rightarrow> n), d', h', w']"
      if "(row # rows \<noteq> [] \<longrightarrow>
             get_n_channels (row_in_channels (hd (row # rows))) (Some wc) dd md = Inr c)
          \<and> 1 \<le> b \<and> (training \<longrightarrow> 2 \<le> b) \<and> 1 \<le> d \<and> 1 \<le> h \<and> 1 \<le> w"
      for c b d h w training
      using that by (intro fwd) (elim conjE, assumption)+
  qed
qed


lemma block_arguments_valid:
  "\<forall>row \<in> set block_arguments.
      1 \<le> row_num_repeat row \<and> 1 \<le> row_kernel_size row \<and> 1 \<le> row_stride row
    \<and> 1 \<le> row_expand_ratio row \<and> 1 \<le> row_in_channels row \<and> 1 \<le> row_out_channels row
    \<and> 0 < row_se_ratio row \<and> row_se_ratio row \<le> 1"
  "successively (\<lambda>r r'. row_out_channels r = row_in_channels r') block_arguments"
  "block_arguments \<noteq> []"
  "row_in_channels (hd block_arguments) = 32"
  "row_out_channels (last block_arguments) = 320"
  by (simp_all add: block_arguments_def block_row_def)

lemma head_shape:
  assumes "1 \<le> n" and "1 \<le> d" and "1 \<le> h" and "1 \<le> w"
  shows "module_forward shape_tensor_ops shape_nn_ops training
           (Sequential [AdaptiveAvgPool3d 1, Flatten, Dropout p, Linear n num_classes])
           [b, n, d, h, w] = Inr [b, num_classes]"
  using assms
  by (simp add: shape_adaptive_avg_pool3d_def shape_Flatten_def shape_Linear_def)

lemma EfficientNet_shape:
  assumes wc: "0 < wc" and dd: "0 < dd"
    and dc: "case dc of None \<Rightarrow> True | Some c \<Rightarrow> 0 \<le> c"
    and dr: "0 \<le> dropout_rate" "dropout_rate \<le> 1"
    and rate: "0 \<le> rate" "rate \<le> 1"
    and nt: "nt \<notin> {Some Instance, Some InstanceZero}"
    and ni: "1 \<le> ni" and nc: "0 \<le> num_classes"
  shows "\<exists>layers.
           EfficientNet_init ni num_classes (Some wc) dc dropout_rate rate dd md act nt = Inr layers
         \<and> (\<forall>l \<in> set layers. module_3d l)
         \<and> (\<forall>b d h w training.
               1 \<le> b \<and> (training \<longrightarrow> 2 \<le> b) \<and> 1 \<le> d \<and> 1 \<le> h \<and> 1 \<le> w \<longrightarrow>
               EfficientNet_forward shape_tensor_ops shape_nn_ops training layers [b, ni, d, h, w]
                 = Inr [b, num_classes])"
proof -
  from get_n_channels_pos [of 32 wc dd md] wc dd
  obtain s0 where s0: "get_n_channels 32 (Some wc) dd md = Inr s0" "1 \<le> s0"
    by auto
  let ?stem_args = "ConvLayerDynamicPadding_defaults
                 \<lparr>cl_ni := ni, cl_nf := s0, cl_ks := KInt 3, cl_stride := 2,
                  cl_bias := Some False, cl_act_cls := None, cl_norm_type := nt\<rparr>"
  obtain stem where stem: "ConvLayerDynamicPadding_init ?stem_args = Inr stem"
    using ConvLayerDynamicPadding_init_ok [of ?stem_args] ni s0(2) by auto
  have stem3: "padded_conv_3d stem"
    using stem by (rule padded_conv_3d_init [where k = 3]) simp_all
  from build_body_shape [OF wc dd dc rate nt block_arguments_valid(1,2), of 0 md act]
  obtain body final where body:
    "build_body (Some wc) dc rate dd md act nt 0 block_arguments = Inr (body, final)
           \<and> (\<forall>s \<in> set body. module_3d s)
           \<and> (block_arguments = [] \<longrightarrow> final = None)
           \<and> (block_arguments \<noteq> [] \<longrightarrow>
                (\<exists>n. final = Some n \<and> 1 \<le> n
                   \<and> get_n_channels (row_out_channels (last block_arguments)) (Some wc) dd md
                       = Inr n))
           \<and> (\<forall>c b d h w training.
                 (block_arguments \<noteq> [] \<longrightarrow>
                    get_n_channels (row_in_channels (hd block_arguments)) (Some wc) dd md = Inr c)
                 \<and> 1 \<le> b \<and> (training \<longrightarrow> 2 \<le> b) \<and> 1 \<le> d \<and> 1 \<le> h \<and> 1 \<le> w \<longrightarrow>
                 (\<exists>d' h' w'. 1 \<le> d' \<and> 1 \<le> h' \<and> 1 \<le> w'
                    \<and> Sequential_forward shape_tensor_ops shape_nn_ops training body
                          [b, c, d, h, w]
                        = Inr [b, (case final of None \<Rightarrow> c | Some n \<Rightarrow> n), d', h', w']))"
    by (elim meta_impE exE) simp_all
  note bb = body [THEN conjunct1]
    and bb3 = body [THEN conjunct2, THEN conjunct1]
    and fin = body [THEN conjunct2, THEN conjunct2, THEN conjunct2, THEN conjunct1, rule_format,
        OF block_arguments_valid(3)]
    and bbf = body [THEN conjunct2, THEN conjunct2, THEN conjunct2, THEN conjunct2, rule_format]
  from fin obtain n320 where n320: "final = Some n320" "1 \<le> n320"
    by (elim exE conjE)
  from get_n_channels_pos [of n320 wc dd md] n320(2) wc dd
  obtain nfin where nfin: "get_n_channels n320 (Some wc) dd md = Inr nfin" "1 \<le> nfin"
    by auto
  let ?final_args = "ConvLayerDynamicPadding_defaults
                 \<lparr>cl_ni := n320, cl_nf := nfin, cl_ks := KInt 1,
                  cl_bias := Some False, cl_act_cls := act, cl_norm_type := nt\<rparr>"
  obtain fconv where fconv: "ConvLayerDynamicPadding_init ?final_args = Inr fconv"
    using ConvLayerDynamicPadding_init_ok [of ?final_args] n320(2) nfin(2) by auto
  have fconv3: "padded_conv_3d fconv"
    using fconv by (rule padded_conv_3d_init [where k = 1]) simp_all
  let ?head = "Sequential [AdaptiveAvgPool3d 1, Flatten, Dropout dropout_rate,
                           Linear nfin num_classes]"
  let ?layers = "[PaddedConv stem] @ body @ [PaddedConv fconv] @ [?head]"
  have val: "EfficientNet_init ni num_classes (Some wc) dc dropout_rate rate dd md act nt
               = Inr ?layers"
    using dr nc nfin(2)
    by (simp add: EfficientNet_init_def s0(1) stem bb n320(1) nfin(1) fconv Dropout_init_def)
  have all3: "\<forall>l \<in> set ?layers. module_3d l"
    using stem3 bb3 fconv3 by simp
  have fwd: "EfficientNet_forward shape_tensor_ops shape_nn_ops training ?layers [b, ni, d, h, w]
               = Inr [b, num_classes]"
    if h: "1 \<le> b" "training \<longrightarrow> 2 \<le> b" "1 \<le> d" "1 \<le> h" "1 \<le> w"
    for b d h w training
  proof -
    let ?d = "(d - 1) div 2 + 1" and ?h = "(h - 1) div 2 + 1" and ?w = "(w - 1) div 2 + 1"
    have ncb: "norm_check training nt [b, c, d0, h0, w0] = Inr [b, c, d0, h0, w0]"
      if "1 \<le> d0" "1 \<le> h0" "1 \<le> w0" for c d0 h0 w0
      using h(2,1) that nt by (rule norm_check_batch)
    have f0: "ConvLayerDynamicPadding_forward shape_nn_ops training stem [b, ni, d, h, w]
                = Inr [b, s0, ?d, ?h, ?w]"
      using padded_forward [OF stem, of 3 d h w training b] h(3-5) ncb by simp
    have o0: "1 \<le> ?d" "1 \<le> ?h" "1 \<le> ?w"
      using h(3-5) by (simp_all add: pos_imp_zdiv_nonneg_iff)
    have "block_arguments \<noteq> [] \<longrightarrow>
            get_n_channels (row_in_channels (hd block_arguments)) (Some wc) dd md = Inr s0"
      by (simp add: block_arguments_valid(4) s0(1))
    then have "\<exists>d' h' w'. 1 \<le> d' \<and> 1 \<le> h' \<and> 1 \<le> w'
                 \<and> Sequential_forward shape_tensor_ops shape_nn_ops training body
                       [b, s0, ?d, ?h, ?w]
                     = Inr [b, (case final of None \<Rightarrow> s0 | Some n \<Rightarrow> n), d', h', w']"
      using h(1,2) o0 by (intro bbf conjI)
    then obtain d1 h1 w1 where o1: "1 \<le> d1" "1 \<le> h1" "1 \<le> w1"
      and f1: "Sequential_forward shape_tensor_ops shape_nn_ops training body [b, s0, ?d, ?h, ?w]
                 = Inr [b, n320, d1, h1, w1]"
      by (auto simp: n320(1))
    have same: "(x - 1) div 1 + 1 = x" for x :: int
      by simp
    have f2: "ConvLayerDynamicPadding_forward shape_nn_ops training fconv [b, n320, d1, h1, w1]
                = Inr [b, nfin, d1, h1, w1]"
      using padded_forward [OF fconv, of 1 d1 h1 w1 training b] o1 ncb by (simp add: same)
    have f3: "module_forward shape_tensor_ops shape_nn_ops training ?head [b, nfin, d1, h1, w1]
                = Inr [b, num_classes]"
      using nfin(2) o1 by (rule head_shape)
    show ?thesis
      unfolding EfficientNet_forward_def Sequential_forward_append
      by (simp add: f0 f1 f2 f3 del: module_forward.simps(4))
  qed
  from val all3 fwd show ?thesis
    by (intro exI [of _ ?layers] conjI allI impI) (assumption | elim conjE)+
qed


lemma ASPP_3d:
  assumes "ASPP_init n_in dilations n_out nt act ps = Inr m"
  shows "\<forall>br \<in> set (aspp_layers m). branch_3d br" and "cl_ndim (aspp_project m) = 3"
  using assms ASPP_init_value [OF ASPP_init_Inr [OF assms], of dilations nt act]
  by (auto simp: branch_3d_def pointwise_args_def atrous_args_def)

lemma DeepLabDecoder_3d:
  assumes "DeepLabDecoder_init n_in low n_out nt act ps = Inr dec"
  shows "cl_ndim (dd_low_lvl_conv dec) = 3" and "\<forall>l \<in> set (dd_last_conv dec). module_3d l"
  using assms DeepLabDecoder_init_value [OF DeepLabDecoder_init_Inr [OF assms], of n_out nt act]
  by auto

section \<open>Verified properties\<close>








text \<open>
  C3.  For every constructed \<open>MBConvBlock\<close>, whatever the tensor operations and the
  layers compute: when \<open>id_skip\<close> is true, \<open>stride = 1\<close> and \<open>n_inp = n_out\<close>, \<open>forward\<close>
  is the residual (DropConnect of the convolutional path, plus the unmodified block
  input); in every other case it is the convolutional path alone.  The convolutional
  path is the expansion when \<open>expand_ratio \<noteq> 1\<close>, the depthwise convolution, squeeze
  and excitation when the block has it, and the pointwise projection.
\<close>

theorem MBConvBlock_skip_connection:
  assumes "MBConvBlock_init n_inp n_out kernel_size stride' se_ratio id_skip expand_ratio
             rate act_cls norm_type = Inr m"
  shows "MBConvBlock_forward T N training m x =
           (if id_skip \<and> stride' = 1 \<and> n_inp = n_out
            then rbind (conv_path T N training m x) (residual T training m x)
            else conv_path T N training m x)"
proof -
  note i = MBConvBlock_init_Inr [OF assms]
  have "MBConvBlock_forward T N training m x =
           rbind (depthwise_output N training m x)
             (\<lambda>y. rbind (case mb_squeeze_expand m of
                            None \<Rightarrow> Inr y
                          | Some se \<Rightarrow> squeeze_excite T N training se y)
                     (project_and_skip T N training m x))"
    by (rule MBConvBlock_forward_parts) (simp only: i(6,8))
  also have "\<dots> = (if id_skip \<and> stride' = 1 \<and> n_inp = n_out
            then rbind (conv_path T N training m x) (residual T training m x)
            else conv_path T N training m x)"
  proof (cases "id_skip \<and> stride' = 1 \<and> n_inp = n_out")
    case True
    then have "project_and_skip T N training m x
                 = (\<lambda>z. rbind (ConvLayerDynamicPadding_forward N training (mb_project_conv m) z)
                           (residual T training m x))"
      by (simp add: project_and_skip_def [abs_def] i(1-4))
    with True show ?thesis
      by (simp add: conv_path_def rbind_assoc)
  next
    case False
    then have "project_and_skip T N training m x
                 = ConvLayerDynamicPadding_forward N training (mb_project_conv m)"
      by (auto simp: project_and_skip_def [abs_def] i(1-4))
    with False show ?thesis
      by (simp only: conv_path_def if_False)
  qed
  finally show ?thesis .
qed


theorem MBConvBlock_skip_connection_witness:
  "\<exists>m. MBConvBlock_init 112 112 (KInt 4) 1 (Some (1 / 4)) True 6 (1 / 5) (Some SiLU) (Some Batch)
        = Inr m
    \<and> MBConvBlock_forward shape_tensor_ops shape_nn_ops True m [1, 112, 10, 14, 14]
        = rbind (conv_path shape_tensor_ops shape_nn_ops True m [1, 112, 10, 14, 14])
            (residual shape_tensor_ops True m [1, 112, 10, 14, 14])"
proof -
  obtain m where m: "MBConvBlock_init 112 112 (KInt 4) 1 (Some (1 / 4)) True 6 (1 / 5)
      (Some SiLU) (Some Batch) = Inr m"
    using MBConvBlock_init_ok [of 112 6 112 "1 / 5" "KInt 4" 1 "Some (1 / 4)" True "Some SiLU"
        "Some Batch"]
    by auto
  from MBConvBlock_skip_connection [OF m, of shape_tensor_ops shape_nn_ops True
      "[1, 112, 10, 14, 14]"] m
  show ?thesis
    by simp
qed





text \<open>
  C6.  For every \<open>p\<close> in \<open>[0, 1]\<close>, \<open>DropConnect(p)\<close> is constructed, and outside
  training mode its \<open>forward\<close> returns the input unchanged, whatever the tensor
  operations are.
\<close>

theorem DropConnect_eval_identity:
  assumes "0 \<le> p" and "p \<le> 1"
  shows "\<exists>m. DropConnect_init p = Inr m \<and> DropConnect_forward T False m x = Inr x"
  using assms by (simp add: DropConnect_init_def DropConnect_forward_def)

theorem DropConnect_eval_identity_witness:
  "\<exists>m. DropConnect_init 1 = Inr m
       \<and> DropConnect_forward (list_tensor_ops (\<lambda>i. 0) (\<lambda>v. v)) False m [ [ [ [ [1, 2] ] ] ] ]
           = Inr [ [ [ [ [1, 2] ] ] ] ]"
  using DropConnect_eval_identity [of 1 "list_tensor_ops (\<lambda>i. 0) (\<lambda>v. v)" "[ [ [ [ [1, 2] ] ] ] ]"]
  by simp







text \<open>
  C9.  For every integer kernel size \<open>ks \<ge> 1\<close>, \<open>calculate_padding\<close> returns two
  non-negative integers whose sum is \<open>ks - 1\<close>; they are equal when \<open>ks\<close> is odd and
  differ by one when it is even.  So the padding layer of a
  \<open>ConvLayerDynamicPadding\<close> with that kernel size enlarges each of the three spatial
  axes of a five-dimensional input by \<open>ks - 1\<close>, and with stride 1 (and the default
  dilation 1, no transposed convolution) the module returns the spatial size of its
  input.  The input has the module's channel count and positive spatial sizes, and
  is one the normalisation layer accepts.
\<close>

theorem calculate_padding_same_size:
  assumes "1 \<le> ks"
  shows "0 \<le> fst (calculate_padding ks) \<and> 0 \<le> snd (calculate_padding ks)
       \<and> fst (calculate_padding ks) + snd (calculate_padding ks) = ks - 1
       \<and> (odd ks \<longrightarrow> fst (calculate_padding ks) = snd (calculate_padding ks))
       \<and> (even ks \<longrightarrow> fst (calculate_padding ks) = snd (calculate_padding ks) + 1)
       \<and> (\<forall>a m b d h w training.
             ConvLayerDynamicPadding_init
                 (a\<lparr>cl_ks := KInt ks, cl_ndim := 3, cl_stride := 1, cl_dilation := 1,
                    cl_transpose := False\<rparr>) = Inr m
             \<and> 1 \<le> d \<and> 1 \<le> h \<and> 1 \<le> w
             \<and> \<not> (training \<and> cl_norm_type a \<in> {Some Batch, Some BatchZero}
                    \<and> b * (d * h * w) = 1)
             \<and> \<not> (cl_norm_type a \<in> {Some Instance, Some InstanceZero} \<and> d * h * w = 1)
             \<longrightarrow>
               ConstantPad3d_forward shape_nn_ops (dp_padding m) (dp_value m)
                   [b, cl_ni a, d, h, w]
                 = Inr [b, cl_ni a, d + (ks - 1), h + (ks - 1), w + (ks - 1)]
             \<and> ConvLayerDynamicPadding_forward shape_nn_ops training m [b, cl_ni a, d, h, w]
                 = Inr [b, cl_nf a, d, h, w])"
proof -
  have "ConstantPad3d_forward shape_nn_ops (dp_padding m) (dp_value m) [b, cl_ni a, d, h, w]
          = Inr [b, cl_ni a, d + (ks - 1), h + (ks - 1), w + (ks - 1)]
        \<and> ConvLayerDynamicPadding_forward shape_nn_ops training m [b, cl_ni a, d, h, w]
          = Inr [b, cl_nf a, d, h, w]"
    if init: "ConvLayerDynamicPadding_init
                 (a\<lparr>cl_ks := KInt ks, cl_ndim := 3, cl_stride := 1, cl_dilation := 1,
                    cl_transpose := False\<rparr>) = Inr m"
      and sz: "1 \<le> d" "1 \<le> h" "1 \<le> w"
      and bn: "\<not> (training \<and> cl_norm_type a \<in> {Some Batch, Some BatchZero}
                    \<and> b * (d * h * w) = 1)"
      and inn: "\<not> (cl_norm_type a \<in> {Some Instance, Some InstanceZero} \<and> d * h * w = 1)"
    for a m b d h w training
  proof -
    let ?a = "a\<lparr>cl_ks := KInt ks, cl_ndim := 3, cl_stride := 1, cl_dilation := 1,
                 cl_transpose := False\<rparr>"
    have pad: "ConstantPad3d_forward shape_nn_ops (dp_padding m) (dp_value m)
                 [b, cl_ni a, d, h, w]
               = Inr [b, cl_ni a, d + (ks - 1), h + (ks - 1), w + (ks - 1)]"
      using padded_shape [OF assms assms assms, of d h w] sz
      by (simp add: shape_nn_ops_def ConvLayerDynamicPadding_init_Inr(1) [OF init]
          add_diff_eq)
    have "ConvLayerDynamicPadding_forward shape_nn_ops training m [b, cl_ni ?a, d, h, w]
            = norm_check training (cl_norm_type ?a)
                [b, cl_nf ?a, (d - 1) div cl_stride ?a + 1, (h - 1) div cl_stride ?a + 1,
                 (w - 1) div cl_stride ?a + 1]"
      using init _ _ assms assms assms _ _ _ sz
      by (rule ConvLayerDynamicPadding_forward_shape) simp_all
    then have "ConvLayerDynamicPadding_forward shape_nn_ops training m [b, cl_ni a, d, h, w]
                 = norm_check training (cl_norm_type a) [b, cl_nf a, d, h, w]"
      by simp
    also have "\<dots> = Inr [b, cl_nf a, d, h, w]"
      using bn inn by (auto simp: norm_check_def)
    finally show ?thesis
      using pad by simp
  qed
  then show ?thesis
    using calculate_padding_props [OF assms] by blast
qed

theorem calculate_padding_same_size_witness:
  "calculate_padding 4 = (2, 1)
   \<and> (\<exists>m. ConvLayerDynamicPadding_init
             (ConvLayerDynamicPadding_defaults
                \<lparr>cl_ni := 80, cl_nf := 80, cl_ks := KInt 4, cl_ndim := 3, cl_stride := 1,
                 cl_dilation := 1, cl_transpose := False\<rparr>)
           = Inr m
         \<and> ConvLayerDynamicPadding_forward shape_nn_ops True m [1, 80, 10, 14, 14]
           = Inr [1, 80, 10, 14, 14])"
proof -
  let ?a = "ConvLayerDynamicPadding_defaults\<lparr>cl_ni := 80, cl_nf := 80\<rparr>"
  let ?a' = "?a\<lparr>cl_ks := KInt 4, cl_ndim := 3, cl_stride := 1, cl_dilation := 1,
                cl_transpose := False\<rparr>"
  have k: "(1::int) \<le> 4"
    by simp
  obtain m where m: "ConvLayerDynamicPadding_init ?a' = Inr m"
    using ConvLayerDynamicPadding_init_ok [of ?a']
    by (auto simp: ConvLayerDynamicPadding_defaults_def ConvLayer_defaults_def)
  have nt: "cl_norm_type ?a = Some Batch" "cl_ni ?a = 80" "cl_nf ?a = 80"
    by (simp_all add: ConvLayerDynamicPadding_defaults_def ConvLayer_defaults_def)
  have "ConvLayerDynamicPadding_forward shape_nn_ops True m [1, cl_ni ?a, 10, 14, 14]
          = Inr [1, cl_nf ?a, 10, 14, 14]"
    using calculate_padding_same_size [OF k, THEN conjunct2, THEN conjunct2, THEN conjunct2,
        THEN conjunct2, THEN conjunct2, rule_format, of ?a m 10 14 14 True 1, THEN conjunct2]
      m nt(1)
    by simp
  then have "ConvLayerDynamicPadding_forward shape_nn_ops True m [1, 80, 10, 14, 14]
          = Inr [1, 80, 10, 14, 14]"
    by (simp only: nt)
  moreover have "calculate_padding 4 = (2, 1)"
    by (simp add: calculate_padding_def)
  ultimately show ?thesis
    using m by blast
qed



end
